theory Spec2Isabelle
  imports Complex_Main "HOL-Library.Word"
begin

section \<open>Values of the host language\<close>

text \<open>
  A JavaScript string is a sequence of UTF-16 code units: \<open>text.length\<close> counts them and
  \<open>text.charCodeAt(i)\<close> reads one. A \<open>Buffer\<close> is a sequence of bytes. The string
  literals of the source are ASCII and are written through \<open>js\<close>.
\<close>

type_synonym js_string = "nat list"

type_synonym buffer = "nat list"

definition js :: "string \<Rightarrow> js_string" where
  "js s = map of_char s"

text \<open>
  Errors are values. \<open>Error m\<close> is \<open>new Error(m)\<close>; \<open>PostgresError\<close> is whatever the
  database driver throws when it refuses a statement.
\<close>

datatype kb_error = Error js_string | PostgresError js_string

text \<open>The truth value of an optional string: \<open>undefined\<close> and \<open>""\<close> are falsy.\<close>

definition truthy :: "js_string option \<Rightarrow> bool" where
  "truthy v = (case v of None \<Rightarrow> False | Some s \<Rightarrow> s \<noteq> [])"

text \<open>A non-negative integer inside a template literal: its decimal digits.\<close>

function decimal :: "nat \<Rightarrow> js_string" where
  "decimal n = (if n < 10 then [48 + n] else decimal (n div 10) @ [48 + n mod 10])"
  by pat_completeness auto
termination
  by (relation "measure id") auto

declare decimal.simps [simp del]

text \<open>
  \<open>toLowerCase\<close> on the ASCII letters. The code only compares its result with the ASCII
  words \<open>pdf\<close>, \<open>txt\<close> and \<open>image\<close>, none of whose letters is the lower case of a
  character outside ASCII.
\<close>

definition toLowerCase :: "js_string \<Rightarrow> js_string" where
  "toLowerCase s = map (\<lambda>c. if 65 \<le> c \<and> c \<le> 90 then c + 32 else c) s"

text \<open>\<open>trim\<close> removes white space and line terminators from both ends.\<close>

definition js_whitespace :: "nat \<Rightarrow> bool" where
  "js_whitespace c =
     (c \<in> {9, 10, 11, 12, 13, 32, 160, 5760, 8232, 8233, 8239, 8287, 12288, 65279}
      \<or> (8192 \<le> c \<and> c \<le> 8202))"

definition trim :: "js_string \<Rightarrow> js_string" where
  "trim s = rev (dropWhile js_whitespace (rev (dropWhile js_whitespace s)))"

text \<open>\<open>Array.join\<close>.\<close>

fun join :: "js_string \<Rightarrow> js_string list \<Rightarrow> js_string" where
  "join sep [] = []"
| "join sep [x] = x"
| "join sep (x # y # ys) = x @ sep @ join sep (y # ys)"

text \<open>
  Numbers are IEEE doubles in the source. A finite double is a rational number, so
  similarities and vector components are of type \<open>rat\<close>; comparison is exact. The
  operations that round (\<open>Math.sin\<close>, the product of two doubles) are not computed here:
  they are fields of the platform below. \<open>x % 1\<close> and \<open>Math.round\<close> are exact on
  doubles and are defined: the remainder takes the sign of the dividend, and rounding
  of a tie goes up.
\<close>

definition js_trunc :: "rat \<Rightarrow> int" where
  "js_trunc x = (if x < 0 then \<lceil>x\<rceil> else \<lfloor>x\<rfloor>)"

definition js_mod1 :: "rat \<Rightarrow> rat" where
  "js_mod1 x = x - of_int (js_trunc x)"

definition Math_round :: "rat \<Rightarrow> int" where
  "Math_round x = \<lfloor>x + 1 / 2\<rfloor>"

text \<open>\<open>ToInt32\<close>: the conversion every bitwise operator applies to its operands.\<close>

definition to_int32 :: "int \<Rightarrow> int" where
  "to_int32 n = (n + 2 ^ 31) mod 2 ^ 32 - 2 ^ 31"

section \<open>Collaborators\<close>

text \<open>
  What the pipeline calls and does not own. A call that throws returns \<open>None\<close>.
  \<^item> \<open>featureExtraction model inputs\<close>: the Hugging Face inference call; its reply is a
    vector or an array of vectors.
  \<^item> \<open>splitText\<close>: the \<open>RecursiveCharacterTextSplitter\<close> configured in the constructor
    (chunk size 1000, overlap 200, separators \<open>\n\n\<close>, \<open>\n\<close>, \<open>. \<close>, space, empty).
  \<^item> \<open>pdf2json\<close>: the event the PDF parser emits for a buffer.
  \<^item> \<open>recognize\<close>: the image pipeline (sharp, then the tesseract worker).
  \<^item> \<open>decodeURIComponent\<close>, \<open>toString_utf8\<close> (\<open>buffer.toString('utf-8')\<close>) and
    \<open>Buffer_from\<close> (\<open>Buffer.from(string)\<close>).
  \<^item> \<open>Math_sin\<close> at an integer argument and \<open>fmul\<close>, the product of two doubles.
  \<^item> \<open>cosine_distance\<close>: the operator \<open><=>\<close> of the vector store.
  \<^item> \<open>gen_random_uuid\<close>: the identifier the store gives its \<open>n\<close>-th row.
  \<^item> \<open>uuid_in\<close>: the store's reading of a string as a value of type \<open>uuid\<close>: the
    identifier in the form the store prints, or \<open>None\<close> when the string is no uuid and
    the statement is refused.
  \<^item> \<open>limit_below_one\<close>: what the query builder and the store make of \<open>.limit(n)\<close> for
    \<open>n < 1\<close>: the clause may be dropped, kept, or refused by the store. For \<open>n \<ge> 1\<close>
    the clause is \<open>LIMIT n\<close>.
  \<^item> \<open>store_rejects_document\<close> and \<open>store_rejects_chunk\<close>: any further reason for which
    the store refuses the values of a row, beyond the constraints written out in the
    section on the store.
\<close>

datatype limit_clause = Unlimited | Limit nat | Limit_refused

datatype hf_output = Flat "rat list" | Nested "rat list list"

datatype pdf_run = Run (run_T: "js_string option")

datatype pdf_textItem = TextItem (item_R: "pdf_run list option")

datatype pdf_page = Page (page_Texts: "pdf_textItem list option")

datatype pdfData = PdfData (data_Pages: "pdf_page list option")

datatype pdf_event = pdfParser_dataError | pdfParser_dataReady pdfData

record platform =
  featureExtraction :: "js_string \<Rightarrow> js_string \<Rightarrow> hf_output option"
  splitText :: "js_string \<Rightarrow> js_string list"
  pdf2json :: "buffer \<Rightarrow> pdf_event"
  recognize :: "buffer \<Rightarrow> js_string option"
  decodeURIComponent :: "js_string \<Rightarrow> js_string option"
  toString_utf8 :: "buffer \<Rightarrow> js_string"
  Buffer_from :: "js_string \<Rightarrow> buffer"
  Math_sin :: "int \<Rightarrow> rat"
  fmul :: "rat \<Rightarrow> rat \<Rightarrow> rat"
  cosine_distance :: "rat list \<Rightarrow> rat list \<Rightarrow> rat"
  gen_random_uuid :: "nat \<Rightarrow> js_string"
  uuid_in :: "js_string \<Rightarrow> js_string option"
  limit_below_one :: "int \<Rightarrow> limit_clause"
  store_rejects_document :: "js_string \<Rightarrow> js_string \<Rightarrow> js_string \<Rightarrow> js_string \<Rightarrow> nat \<Rightarrow> bool"
  store_rejects_chunk :: "js_string \<Rightarrow> rat list \<Rightarrow> nat \<Rightarrow> bool"

section \<open>FreeDocumentProcessor\<close>

subsection \<open>createHashBasedEmbedding\<close>

text \<open>
  \<^verbatim>\<open>hash = (hash << 5) - hash + text.charCodeAt(i); hash = hash & hash;\<close>
  The shift converts \<open>hash\<close> to a 32-bit integer and wraps its result; the subtraction and
  the addition are exact; \<open>hash & hash\<close> wraps again.
\<close>

definition shl5 :: "int \<Rightarrow> int" where
  "shl5 h = to_int32 (to_int32 h * 32)"

definition hash_step :: "int \<Rightarrow> nat \<Rightarrow> int" where
  "hash_step h c = (let hash = shl5 h - h + int c in to_int32 hash)"

definition text_hash :: "js_string \<Rightarrow> int" where
  "text_hash text = foldl hash_step 0 text"

text \<open>
  \<^verbatim>\<open>embedding[i] = (Math.sin(seed) * 43758.5453) % 1\<close> with \<open>seed = hash + i\<close>, which is
  not wrapped.
\<close>

definition createHashBasedEmbedding :: "platform \<Rightarrow> js_string \<Rightarrow> rat list" where
  "createHashBasedEmbedding P text =
     (let hash = text_hash text
      in map (\<lambda>i. let seed = hash + int i
                   in js_mod1 (fmul P (Math_sin P seed) (437585453 / 10000))) [0..<384])"

text \<open>
  The hash as the specification words it: a polynomial rolling hash of the characters,
  base 31, in 32-bit arithmetic.
\<close>

definition poly_hash32 :: "js_string \<Rightarrow> 32 word" where
  "poly_hash32 text = foldl (\<lambda>h c. 31 * h + of_nat c) 0 text"

subsection \<open>embedQuery and createChunks\<close>

definition models :: "js_string list" where
  "models = [js ''sentence-transformers/paraphrase-MiniLM-L6-v2'',
             js ''sentence-transformers/all-MiniLM-L6-v2'',
             js ''sentence-transformers/paraphrase-multilingual-MiniLM-L12-v2'']"

text \<open>
  The loop over the models: the first call that returns ends it, a call that throws is
  caught and the next model is tried. \<open>None\<close> when every call threw.
\<close>

fun tryModels :: "platform \<Rightarrow> js_string list \<Rightarrow> js_string \<Rightarrow> hf_output option" where
  "tryModels P [] inputs = None"
| "tryModels P (model # rest) inputs =
     (case featureExtraction P model inputs of
        Some reply \<Rightarrow> Some reply
      | None \<Rightarrow> tryModels P rest inputs)"

text \<open>
  \<^verbatim>\<open>Array.isArray(embedding[0]) ? embedding[0] : embedding\<close>: the first row of an array
  of vectors, otherwise the reply itself (an empty array has no first element and is
  returned as it is).
\<close>

fun flatEmbedding :: "hf_output \<Rightarrow> rat list" where
  "flatEmbedding (Flat v) = v"
| "flatEmbedding (Nested []) = []"
| "flatEmbedding (Nested (row # rows)) = row"

text \<open>The body of the \<open>try\<close> of \<open>embedQuery\<close>, then \<open>embedQuery\<close> with its \<open>catch\<close>.\<close>

definition embedQuery_try :: "platform \<Rightarrow> js_string \<Rightarrow> kb_error + rat list" where
  "embedQuery_try P query =
     (case tryModels P models query of
        Some reply \<Rightarrow> Inr (flatEmbedding reply)
      | None \<Rightarrow> Inl (Error (js ''All query embedding models failed'')))"

definition embedQuery :: "platform \<Rightarrow> js_string \<Rightarrow> kb_error + rat list" where
  "embedQuery P query =
     (case embedQuery_try P query of
        Inr reply \<Rightarrow> Inr reply
      | Inl error \<Rightarrow> Inr (createHashBasedEmbedding P query))"

record chunk_metadata =
  filename_m :: js_string
  chunkLength_m :: nat
  totalChunks_m :: nat
  fallback_m :: bool

record DocumentChunk =
  content_c :: js_string
  embedding_c :: "rat list"
  chunkIndex_c :: nat
  metadata_c :: chunk_metadata

record processed_metadata =
  filename_p :: js_string
  fileType_p :: js_string
  fileSize_p :: nat
  totalChunks_p :: nat

record ProcessedDocument =
  content_p :: js_string
  chunks_p :: "DocumentChunk list"
  metadata_p :: processed_metadata

text \<open>The body of the \<open>try\<close> in the loop of \<open>createChunks\<close>, for one chunk.\<close>

definition embedChunk_try :: "platform \<Rightarrow> js_string \<Rightarrow> kb_error + rat list" where
  "embedChunk_try P chunkContent =
     (case tryModels P models chunkContent of
        None \<Rightarrow> Inl (Error (js ''All embedding models failed''))
      | Some reply \<Rightarrow> Inr (flatEmbedding reply))"

text \<open>One turn of the loop: the chunk pushed for index \<open>i\<close>, from the \<open>try\<close> or its \<open>catch\<close>.\<close>

definition makeChunk :: "platform \<Rightarrow> js_string \<Rightarrow> js_string list \<Rightarrow> nat \<Rightarrow> DocumentChunk" where
  "makeChunk P filename textChunks i =
     (let chunkContent = textChunks ! i
      in case embedChunk_try P chunkContent of
           Inr flat \<Rightarrow>
             \<lparr>content_c = chunkContent, embedding_c = flat, chunkIndex_c = i,
              metadata_c = \<lparr>filename_m = filename, chunkLength_m = length chunkContent,
                          totalChunks_m = length textChunks, fallback_m = False\<rparr>\<rparr>
         | Inl error \<Rightarrow>
             \<lparr>content_c = chunkContent, embedding_c = createHashBasedEmbedding P chunkContent,
              chunkIndex_c = i,
              metadata_c = \<lparr>filename_m = filename, chunkLength_m = length chunkContent,
                          totalChunks_m = length textChunks, fallback_m = True\<rparr>\<rparr>)"

definition createChunks :: "platform \<Rightarrow> js_string \<Rightarrow> js_string \<Rightarrow> DocumentChunk list" where
  "createChunks P content filename =
     (let textChunks = splitText P content
      in map (makeChunk P filename textChunks) [0..<length textChunks])"

subsection \<open>processPDF, processImage, processDocument\<close>

text \<open>
  The handler of \<open>pdfParser_dataReady\<close> appends to \<open>text\<close> every run whose \<open>T\<close> is truthy,
  decoded and followed by a space, and a newline after each page that has \<open>Texts\<close>. A
  \<open>decodeURIComponent\<close> that throws ends the handler's \<open>try\<close>: the result is \<open>None\<close>.
\<close>

fun runs_text :: "platform \<Rightarrow> pdf_run list \<Rightarrow> js_string \<Rightarrow> js_string option" where
  "runs_text P [] text = Some text"
| "runs_text P (run # rest) text =
     (if truthy (run_T run)
      then (case decodeURIComponent P (the (run_T run)) of
              None \<Rightarrow> None
            | Some decoded \<Rightarrow> runs_text P rest (text @ decoded @ js '' ''))
      else runs_text P rest text)"

fun items_text :: "platform \<Rightarrow> pdf_textItem list \<Rightarrow> js_string \<Rightarrow> js_string option" where
  "items_text P [] text = Some text"
| "items_text P (textItem # rest) text =
     (case item_R textItem of
        None \<Rightarrow> items_text P rest text
      | Some runs \<Rightarrow>
          (case runs_text P runs text of
             None \<Rightarrow> None
           | Some text' \<Rightarrow> items_text P rest text'))"

fun pages_text :: "platform \<Rightarrow> pdf_page list \<Rightarrow> js_string \<Rightarrow> js_string option" where
  "pages_text P [] text = Some text"
| "pages_text P (page # rest) text =
     (case page_Texts page of
        None \<Rightarrow> pages_text P rest text
      | Some items \<Rightarrow>
          (case items_text P items text of
             None \<Rightarrow> None
           | Some text' \<Rightarrow> pages_text P rest (text' @ js [CHR 0x0A])))"

definition pdf_text :: "platform \<Rightarrow> pdfData \<Rightarrow> js_string option" where
  "pdf_text P pdfData =
     (case data_Pages pdfData of
        None \<Rightarrow> Some []
      | Some pages \<Rightarrow> pages_text P pages [])"

definition empty_pdf_message :: "nat \<Rightarrow> js_string" where
  "empty_pdf_message n =
     js ''[PDF Content] - This PDF appears to be empty or contains only images. File size: ''
     @ decimal n @ js '' bytes.''"

definition unreadable_pdf_message :: "nat \<Rightarrow> js_string" where
  "unreadable_pdf_message n =
     js ''[PDF Content] - Could not extract text from this PDF. It may contain only images or be encrypted. File size: ''
     @ decimal n @ js '' bytes.''"

definition processPDF :: "platform \<Rightarrow> buffer \<Rightarrow> kb_error + js_string" where
  "processPDF P buffer =
     (case pdf2json P buffer of
        pdfParser_dataError \<Rightarrow> Inl (Error (js ''Failed to parse PDF''))
      | pdfParser_dataReady pdfData \<Rightarrow>
          (case pdf_text P pdfData of
             None \<Rightarrow> Inr (unreadable_pdf_message (length buffer))
           | Some text \<Rightarrow>
               (let cleanText = trim text
                in if length cleanText = 0 then Inr (empty_pdf_message (length buffer))
                   else Inr cleanText)))"

definition processImage :: "platform \<Rightarrow> buffer \<Rightarrow> kb_error + js_string" where
  "processImage P buffer =
     (case recognize P buffer of
        None \<Rightarrow> Inl (Error (js ''Failed to process image file''))
      | Some text \<Rightarrow> Inr text)"

definition processDocument ::
  "platform \<Rightarrow> buffer \<Rightarrow> js_string \<Rightarrow> js_string \<Rightarrow> kb_error + ProcessedDocument" where
  "processDocument P buffer filename fileType =
     (let kind = toLowerCase fileType;
          extracted =
            (if kind = js ''pdf'' then processPDF P buffer
             else if kind = js ''txt'' then Inr (toString_utf8 P buffer)
             else if kind = js ''image'' then processImage P buffer
             else Inl (Error (js ''Unsupported file type: '' @ fileType)))
      in case extracted of
           Inl error \<Rightarrow> Inl error
         | Inr content \<Rightarrow>
             (let chunks = createChunks P content filename
              in Inr \<lparr>content_p = content, chunks_p = chunks,
                      metadata_p = \<lparr>filename_p = filename, fileType_p = fileType,
                                    fileSize_p = length buffer,
                                    totalChunks_p = length chunks\<rparr>\<rparr>))"

section \<open>The store\<close>

text \<open>
  The two tables of the migration. A row of \<open>DocumentChunk\<close> is the chunk of the processor
  with the columns the store fills in. Identifiers and owners are the strings the code
  passes; the store compares them for equality, a uuid being the string the store
  prints for it. The store refuses a statement that compares a uuid column with a
  string it cannot read as a uuid. In the methods with a \<open>try\<close> that refusal is caught
  and replaced by the error of the method, and identifiers are compared as strings
  there; in the methods without a \<open>try\<close> it reaches the caller and is written out.
\<close>

record KnowledgeDocument =
  id_d :: js_string
  title_d :: js_string
  filename_d :: js_string
  fileType_d :: js_string
  content_d :: "js_string option"
  fileSize_d :: "nat option"
  uploadedAt_d :: nat
  userId_d :: js_string

record DocumentChunkRow = DocumentChunk +
  id_c :: js_string
  documentId_c :: js_string
  createdAt_c :: nat

text \<open>
  The state of the database: the identifiers of the table \<open>User\<close> (the target of the
  foreign key of \<open>KnowledgeDocument.userId\<close>), the dimension declared for the column
  \<open>DocumentChunk.embedding\<close> (\<open>vector(1536)\<close> in the migration), the two tables in
  insertion order, and a counter from which row identifiers and timestamps are drawn.
  Every statement runs on its own: the code opens no transaction.
\<close>

record db =
  user_ids :: "js_string list"
  vector_dim :: nat
  knowledgeDocument :: "KnowledgeDocument list"
  documentChunk :: "DocumentChunkRow list"
  serial :: nat

text \<open>
  What the store refuses. From the migration: a document whose \<open>userId\<close> is no row of
  \<open>User\<close>, a chunk whose embedding has not the declared dimension or whose \<open>documentId\<close>
  is no document. From the column types: a \<open>text\<close> or \<open>varchar\<close> value that holds the code
  unit 0, and a string that is no uuid where a uuid is compared. Anything else the
  store may object to is left to the platform. A refused statement raises
  \<open>PostgresError\<close> (the messages are shortened here).
\<close>

definition foreign_key_violation :: kb_error where
  "foreign_key_violation = PostgresError (js ''violates foreign key constraint'')"

definition dimension_mismatch :: kb_error where
  "dimension_mismatch = PostgresError (js ''different vector dimensions'')"

definition invalid_byte_sequence :: kb_error where
  "invalid_byte_sequence = PostgresError (js ''invalid byte sequence for encoding UTF8: 0x00'')"

definition invalid_uuid :: kb_error where
  "invalid_uuid = PostgresError (js ''invalid input syntax for type uuid'')"

definition limit_refused :: kb_error where
  "limit_refused = PostgresError (js ''LIMIT must not be negative'')"

definition rejected_by_store :: kb_error where
  "rejected_by_store = PostgresError (js ''rejected'')"

text \<open>
  \<^verbatim>\<open>db.insert(knowledgeDocument).values({...}).returning()\<close>
  \<open>document_refused\<close> is the error the store raises for the values, \<open>None\<close> when it takes
  them.
\<close>

definition document_refused ::
  "platform \<Rightarrow> db \<Rightarrow> js_string \<Rightarrow> js_string \<Rightarrow> js_string \<Rightarrow> js_string \<Rightarrow> nat \<Rightarrow> js_string
     \<Rightarrow> kb_error option" where
  "document_refused P db title filename fileType content fileSize userId =
     (if 0 \<in> set title \<or> 0 \<in> set filename \<or> 0 \<in> set fileType \<or> 0 \<in> set content
      then Some invalid_byte_sequence
      else if userId \<notin> set (user_ids db) then Some foreign_key_violation
      else if store_rejects_document P title filename fileType content fileSize
      then Some rejected_by_store
      else None)"

definition insert_knowledgeDocument ::
  "platform \<Rightarrow> db \<Rightarrow> js_string \<Rightarrow> js_string \<Rightarrow> js_string \<Rightarrow> js_string \<Rightarrow> nat \<Rightarrow> js_string
     \<Rightarrow> kb_error + KnowledgeDocument \<times> db" where
  "insert_knowledgeDocument P db title filename fileType content fileSize userId =
     (case document_refused P db title filename fileType content fileSize userId of
        Some error \<Rightarrow> Inl error
      | None \<Rightarrow>
          (let row = \<lparr>id_d = gen_random_uuid P (serial db), title_d = title,
                      filename_d = filename, fileType_d = fileType,
                      content_d = Some content, fileSize_d = Some fileSize,
                      uploadedAt_d = serial db, userId_d = userId\<rparr>
           in Inr (row, db\<lparr>knowledgeDocument := knowledgeDocument db @ [row],
                           serial := Suc (serial db)\<rparr>)))"

text \<open>\<^verbatim>\<open>db.insert(documentChunk).values({...})\<close>\<close>

definition chunk_row :: "platform \<Rightarrow> nat \<Rightarrow> js_string \<Rightarrow> DocumentChunk \<Rightarrow> DocumentChunkRow" where
  "chunk_row P n documentId chunk =
     \<lparr>content_c = content_c chunk, embedding_c = embedding_c chunk,
      chunkIndex_c = chunkIndex_c chunk, metadata_c = metadata_c chunk,
      id_c = gen_random_uuid P n, documentId_c = documentId, createdAt_c = n\<rparr>"

definition chunk_refused :: "platform \<Rightarrow> db \<Rightarrow> js_string \<Rightarrow> DocumentChunk \<Rightarrow> kb_error option" where
  "chunk_refused P db documentId chunk =
     (if 0 \<in> set (content_c chunk) then Some invalid_byte_sequence
      else if length (embedding_c chunk) \<noteq> vector_dim db then Some dimension_mismatch
      else if documentId \<notin> set (map id_d (knowledgeDocument db)) then Some foreign_key_violation
      else if store_rejects_chunk P (content_c chunk) (embedding_c chunk) (chunkIndex_c chunk)
      then Some rejected_by_store
      else None)"

definition insert_documentChunk ::
  "platform \<Rightarrow> db \<Rightarrow> js_string \<Rightarrow> DocumentChunk \<Rightarrow> kb_error + db" where
  "insert_documentChunk P db documentId chunk =
     (case chunk_refused P db documentId chunk of
        Some error \<Rightarrow> Inl error
      | None \<Rightarrow>
          Inr (db\<lparr>documentChunk :=
                    documentChunk db @ [chunk_row P (serial db) documentId chunk],
                  serial := Suc (serial db)\<rparr>))"

text \<open>The columns of a row that came from the processor.\<close>

definition chunk_of_row :: "DocumentChunkRow \<Rightarrow> DocumentChunk" where
  "chunk_of_row row =
     \<lparr>content_c = content_c row, embedding_c = embedding_c row,
      chunkIndex_c = chunkIndex_c row, metadata_c = metadata_c row\<rparr>"

text \<open>
  \<^verbatim>\<open>for (const chunk of processed.chunks) { await db.insert(documentChunk)... }\<close>
  The loop ends at the first insert that throws; the rows written before it stay.
\<close>

fun insert_chunks ::
  "platform \<Rightarrow> db \<Rightarrow> js_string \<Rightarrow> DocumentChunk list \<Rightarrow> (kb_error + unit) \<times> db" where
  "insert_chunks P db documentId [] = (Inr (), db)"
| "insert_chunks P db documentId (chunk # rest) =
     (case insert_documentChunk P db documentId chunk of
        Inl error \<Rightarrow> (Inl error, db)
      | Inr db' \<Rightarrow> insert_chunks P db' documentId rest)"

text \<open>The rows the loop writes for a list of chunks the store takes, from counter \<open>n\<close> on.\<close>

definition chunk_rows :: "platform \<Rightarrow> nat \<Rightarrow> js_string \<Rightarrow> DocumentChunk list \<Rightarrow> DocumentChunkRow list" where
  "chunk_rows P n documentId chunks =
     map (\<lambda>(k, chunk). chunk_row P k documentId chunk) (zip [n..<n + length chunks] chunks)"

section \<open>KnowledgeBase\<close>

text \<open>
  Each method with a \<open>try\<close> is modelled in two layers: the body of the \<open>try\<close>, which
  returns the error it throws, and the method, whose \<open>catch\<close> replaces that error. A
  method returns its result together with the database it leaves behind.
\<close>

subsection \<open>addDocument\<close>

definition addDocument_try ::
  "platform \<Rightarrow> db \<Rightarrow> buffer \<Rightarrow> js_string \<Rightarrow> js_string \<Rightarrow> js_string \<Rightarrow> js_string
     \<Rightarrow> (kb_error + KnowledgeDocument) \<times> db" where
  "addDocument_try P db buffer filename fileType title userId =
     (case processDocument P buffer filename fileType of
        Inl error \<Rightarrow> (Inl error, db)
      | Inr processed \<Rightarrow>
          (case insert_knowledgeDocument P db title filename fileType (content_p processed)
                  (fileSize_p (metadata_p processed)) userId of
             Inl error \<Rightarrow> (Inl error, db)
           | Inr (document, db1) \<Rightarrow>
               (case insert_chunks P db1 (id_d document) (chunks_p processed) of
                  (Inl error, db2) \<Rightarrow> (Inl error, db2)
                | (Inr u, db2) \<Rightarrow> (Inr document, db2))))"

definition addDocument ::
  "platform \<Rightarrow> db \<Rightarrow> buffer \<Rightarrow> js_string \<Rightarrow> js_string \<Rightarrow> js_string \<Rightarrow> js_string
     \<Rightarrow> (kb_error + KnowledgeDocument) \<times> db" where
  "addDocument P db buffer filename fileType title userId =
     (case addDocument_try P db buffer filename fileType title userId of
        (Inr document, db') \<Rightarrow> (Inr document, db')
      | (Inl error, db') \<Rightarrow>
          (Inl (Error (js ''Failed to add document to knowledge base'')), db'))"

text \<open>Names for the row \<open>addDocument\<close> inserts and for the database after that insert.\<close>

definition new_document ::
  "platform \<Rightarrow> db \<Rightarrow> js_string \<Rightarrow> js_string \<Rightarrow> js_string \<Rightarrow> js_string \<Rightarrow> ProcessedDocument
     \<Rightarrow> KnowledgeDocument" where
  "new_document P db title filename fileType userId processed =
     \<lparr>id_d = gen_random_uuid P (serial db), title_d = title, filename_d = filename,
      fileType_d = fileType, content_d = Some (content_p processed),
      fileSize_d = Some (fileSize_p (metadata_p processed)), uploadedAt_d = serial db,
      userId_d = userId\<rparr>"

definition with_document :: "db \<Rightarrow> KnowledgeDocument \<Rightarrow> db" where
  "with_document db document =
     db\<lparr>knowledgeDocument := knowledgeDocument db @ [document], serial := Suc (serial db)\<rparr>"

subsection \<open>searchSimilar\<close>

record SearchResult =
  chunk_s :: DocumentChunkRow
  document_s :: KnowledgeDocument
  similarity_s :: rat

text \<open>
  \<open>.limit(limit)\<close>: the source passes the number on without a check. The limit is an
  integer here. For a limit of at least 1 the query ends in \<open>LIMIT limit\<close>; below 1 the
  outcome is the platform's.
\<close>

definition limit_clause_of :: "platform \<Rightarrow> int \<Rightarrow> limit_clause" where
  "limit_clause_of P limit = (if 1 \<le> limit then Limit (nat limit) else limit_below_one P limit)"

text \<open>
  The query: the inner join of the chunks with their documents, the conjunction of
  \<open>whereConditions\<close>, the order by similarity, largest first (rows of equal similarity
  keep the order of the join; the store promises none), and the limit. The owner
  condition is pushed only when \<open>userId\<close> is truthy, and compares the owner of the
  document with the string passed. The operator \<open><=>\<close> is taken on vectors of one
  dimension, as the column holds them, and is a total function here: a query that the
  store refuses because the query vector has another dimension than the column is not
  distinguished from one that returns.
\<close>

definition searchSimilar_try ::
  "platform \<Rightarrow> db \<Rightarrow> js_string \<Rightarrow> int \<Rightarrow> rat \<Rightarrow> js_string option
     \<Rightarrow> kb_error + SearchResult list" where
  "searchSimilar_try P db query limit similarityThreshold userId =
     (case embedQuery P query of
        Inl error \<Rightarrow> Inl error
      | Inr queryEmbedding \<Rightarrow>
          (let similarity = (\<lambda>c. 1 - cosine_distance P (embedding_c c) queryEmbedding);
               whereConditions =
                 [\<lambda>(c, d). similarity c > similarityThreshold]
                 @ (if truthy userId then [\<lambda>(c, d). userId_d d = the userId] else []);
               joined = [(c, d). c \<leftarrow> documentChunk db, d \<leftarrow> knowledgeDocument db,
                                 documentId_c c = id_d d];
               selected = filter (\<lambda>row. list_all (\<lambda>condition. condition row) whereConditions)
                            joined;
               ordered = sort_key (\<lambda>(c, d). - similarity c) selected;
               limited = (case limit_clause_of P limit of
                            Unlimited \<Rightarrow> Inr ordered
                          | Limit n \<Rightarrow> Inr (take n ordered)
                          | Limit_refused \<Rightarrow> Inl limit_refused)
           in case limited of
                Inl error \<Rightarrow> Inl error
              | Inr rows \<Rightarrow>
                  Inr (map (\<lambda>(c, d). \<lparr>chunk_s = c, document_s = d,
                                         similarity_s = similarity c\<rparr>) rows)))"

definition searchSimilar ::
  "platform \<Rightarrow> db \<Rightarrow> js_string \<Rightarrow> int \<Rightarrow> rat \<Rightarrow> js_string option
     \<Rightarrow> kb_error + SearchResult list" where
  "searchSimilar P db query limit similarityThreshold userId =
     (case searchSimilar_try P db query limit similarityThreshold userId of
        Inr results \<Rightarrow> Inr results
      | Inl error \<Rightarrow> Inl (Error (js ''Failed to search knowledge base'')))"

subsection \<open>The query of searchSimilar, named\<close>

text \<open>
  Names for the parts of the query, used to state what \<open>searchSimilar\<close> returns: the
  vector \<open>embedQuery\<close> yields, the similarity the store computes for a chunk, the join,
  the rows the conditions keep, and the result built from a row.
\<close>

definition query_vector :: "platform \<Rightarrow> js_string \<Rightarrow> rat list" where
  "query_vector P query =
     (case tryModels P models query of
        Some reply \<Rightarrow> flatEmbedding reply
      | None \<Rightarrow> createHashBasedEmbedding P query)"

definition similarity_of :: "platform \<Rightarrow> js_string \<Rightarrow> DocumentChunkRow \<Rightarrow> rat" where
  "similarity_of P query c = 1 - cosine_distance P (embedding_c c) (query_vector P query)"

definition joined :: "db \<Rightarrow> (DocumentChunkRow \<times> KnowledgeDocument) list" where
  "joined db = [(c, d). c \<leftarrow> documentChunk db, d \<leftarrow> knowledgeDocument db, documentId_c c = id_d d]"

definition selected ::
  "platform \<Rightarrow> db \<Rightarrow> js_string \<Rightarrow> rat \<Rightarrow> js_string option
     \<Rightarrow> (DocumentChunkRow \<times> KnowledgeDocument) list" where
  "selected P db query threshold userId =
     filter (\<lambda>(c, d). similarity_of P query c > threshold
                      \<and> (truthy userId \<longrightarrow> userId_d d = the userId))
       (joined db)"

definition result_of :: "platform \<Rightarrow> js_string \<Rightarrow> DocumentChunkRow \<times> KnowledgeDocument \<Rightarrow> SearchResult" where
  "result_of P query row =
     \<lparr>chunk_s = fst row, document_s = snd row, similarity_s = similarity_of P query (fst row)\<rparr>"

subsection \<open>getDocuments, deleteDocument, getDocumentChunks\<close>

text \<open>
  These three methods have no \<open>try\<close>: what the store raises reaches the caller. Their
  arguments are compared with uuid columns, so the store first reads each as a uuid and
  refuses the statement when it cannot; the comparison is on the value read.
\<close>

definition getDocuments :: "platform \<Rightarrow> db \<Rightarrow> js_string \<Rightarrow> kb_error + KnowledgeDocument list" where
  "getDocuments P db userId =
     (case uuid_in P userId of
        None \<Rightarrow> Inl invalid_uuid
      | Some u \<Rightarrow>
          Inr (rev (sort_key uploadedAt_d (filter (\<lambda>d. userId_d d = u) (knowledgeDocument db)))))"

text \<open>
  One \<open>DELETE\<close> on \<open>KnowledgeDocument\<close> with both conditions. The foreign key of
  \<open>DocumentChunk.documentId\<close> is declared \<open>ON DELETE cascade\<close>: the chunks that refer to a
  deleted row go with it.
\<close>

definition deleteDocument ::
  "platform \<Rightarrow> db \<Rightarrow> js_string \<Rightarrow> js_string \<Rightarrow> (kb_error + unit) \<times> db" where
  "deleteDocument P db documentId userId =
     (case (uuid_in P documentId, uuid_in P userId) of
        (Some i, Some u) \<Rightarrow>
          (let deleted = filter (\<lambda>d. id_d d = i \<and> userId_d d = u) (knowledgeDocument db)
           in (Inr (),
               db\<lparr>knowledgeDocument :=
                      filter (\<lambda>d. \<not> (id_d d = i \<and> userId_d d = u)) (knowledgeDocument db),
                  documentChunk :=
                      filter (\<lambda>c. documentId_c c \<notin> set (map id_d deleted)) (documentChunk db)\<rparr>))
      | (Some i, None) \<Rightarrow> (Inl invalid_uuid, db)
      | (None, owner) \<Rightarrow> (Inl invalid_uuid, db))"

definition getDocumentChunks :: "platform \<Rightarrow> db \<Rightarrow> js_string \<Rightarrow> kb_error + DocumentChunkRow list" where
  "getDocumentChunks P db documentId =
     (case uuid_in P documentId of
        None \<Rightarrow> Inl invalid_uuid
      | Some i \<Rightarrow>
          Inr (sort_key chunkIndex_c (filter (\<lambda>c. documentId_c c = i) (documentChunk db))))"

subsection \<open>reprocessDocument\<close>






section \<open>The search tool\<close>

record result_entry =
  rank_t :: nat
  content_t :: js_string
  source_t :: js_string
  filename_t :: js_string
  similarity_t :: int

record tool_output =
  success_t :: bool
  message_t :: js_string
  allContent_t :: "js_string option"
  sources_t :: "js_string list option"
  totalChunks_t :: "nat option"
  results_t :: "result_entry list"
  error_t :: "js_string option"

text \<open>\<open>[...new Set(xs)]\<close>: the elements in the order of their first occurrence.\<close>

definition dedupe :: "js_string list \<Rightarrow> js_string list" where
  "dedupe xs = rev (remdups (rev xs))"

definition error_message :: "kb_error \<Rightarrow> js_string" where
  "error_message error = (case error of Error m \<Rightarrow> m | PostgresError m \<Rightarrow> m)"

text \<open>
  \<open>execute\<close>. \<open>auth\<close> is the outcome of \<open>await auth()\<close>: an error it throws, or the value of
  \<open>session?.user?.id\<close>. The threshold is the literal \<open>0.2\<close>. Every path, the \<open>catch\<close>
  included, returns an object.
\<close>

definition execute ::
  "platform \<Rightarrow> db \<Rightarrow> kb_error + js_string option \<Rightarrow> js_string \<Rightarrow> int \<Rightarrow> tool_output" where
  "execute P db auth query limit =
     (let caught = (\<lambda>error.
            \<lparr>success_t = False, message_t = js ''Error searching documents'',
             allContent_t = None, sources_t = None, totalChunks_t = None, results_t = [],
             error_t = Some (error_message error)\<rparr>)
      in case auth of
           Inl error \<Rightarrow> caught error
         | Inr session_user_id \<Rightarrow>
             if \<not> truthy session_user_id
             then \<lparr>success_t = False, message_t = js ''Authentication required'',
                   allContent_t = None, sources_t = None, totalChunks_t = None,
                   results_t = [], error_t = None\<rparr>
             else (case searchSimilar P db query limit (1 / 5) session_user_id of
                     Inl error \<Rightarrow> caught error
                   | Inr results \<Rightarrow>
                       if length results = 0
                       then \<lparr>success_t = False,
                             message_t = js ''No relevant information found in uploaded documents.'',
                             allContent_t = None, sources_t = None, totalChunks_t = None,
                             results_t = [], error_t = None\<rparr>
                       else (let allContent =
                                   join (js [CHR 0x0A, CHR 0x0A])
                                     (map (\<lambda>result. content_c (chunk_s result)) results);
                                 sources =
                                   dedupe (map (\<lambda>result. title_d (document_s result)) results)
                             in \<lparr>success_t = True,
                                 message_t = js ''Found detailed information from ''
                                             @ decimal (length sources) @ js '' document(s)'',
                                 allContent_t = Some allContent, sources_t = Some sources,
                                 totalChunks_t = Some (length results),
                                 results_t =
                                   map (\<lambda>(result, index).
                                          \<lparr>rank_t = index + 1,
                                           content_t = content_c (chunk_s result),
                                           source_t = title_d (document_s result),
                                           filename_t = filename_d (document_s result),
                                           similarity_t =
                                             Math_round (fmul P (similarity_s result) 100)\<rparr>)
                                     (zip results [0..<length results]),
                                 error_t = None\<rparr>)))"

section \<open>Sample data\<close>

text \<open>
  Concrete collaborators and databases, on which the properties below are instantiated.
  \<open>offline\<close>: every embedding model fails, the splitter returns a non-empty text as one
  chunk, the PDF parser reports one page without text, bytes and code units coincide
  (ASCII), and \<open><=>\<close> is one minus the dot product, which is the cosine distance on the
  unit vectors the sample rows hold. A limit of 0 is kept as \<open>LIMIT 0\<close> and a negative
  one is dropped by the query builder. Identifiers are abstract: the store numbers its
  rows in decimal and reads every string as an identifier; it has no further objection
  to a row.
\<close>

definition dot :: "rat list \<Rightarrow> rat list \<Rightarrow> rat" where
  "dot a b = sum_list (map (\<lambda>(x, y). x * y) (zip a b))"

definition offline :: platform where
  "offline =
     \<lparr>featureExtraction = (\<lambda>model inputs. None),
      splitText = (\<lambda>t. if t = [] then [] else [t]),
      pdf2json = (\<lambda>b. pdfParser_dataReady (PdfData (Some [Page (Some [])]))),
      recognize = (\<lambda>b. None),
      decodeURIComponent = Some,
      toString_utf8 = (\<lambda>b. b),
      Buffer_from = (\<lambda>s. s),
      Math_sin = (\<lambda>n. 0),
      fmul = (\<lambda>x y. x * y),
      cosine_distance = (\<lambda>a b. 1 - dot a b),
      gen_random_uuid = decimal,
      uuid_in = Some,
      limit_below_one = (\<lambda>n. if n = 0 then Limit 0 else Unlimited),
      store_rejects_document = (\<lambda>title filename fileType content fileSize. False),
      store_rejects_chunk = (\<lambda>content embedding chunkIndex. False)\<rparr>"

text \<open>The first model fails and the second replies with one row, a unit vector of 384 components.\<close>

definition second_model_up :: platform where
  "second_model_up =
     offline\<lparr>featureExtraction :=
               (\<lambda>model inputs. if model = models ! 1 then Some (Nested [1 # replicate 383 0])
                                else None)\<rparr>"

text \<open>A PDF whose only run cannot be decoded.\<close>

definition undecodable :: pdfData where
  "undecodable = PdfData (Some [Page (Some [TextItem (Some [Run (Some (js ''%''))])])])"

definition undecodable_pdf :: platform where
  "undecodable_pdf =
     offline\<lparr>decodeURIComponent := (\<lambda>s. None),
             pdf2json := (\<lambda>b. pdfParser_dataReady undecodable)\<rparr>"

text \<open>
  \<open>online\<close>: every model replies with the vector \<open>(1, 0)\<close>. \<open>two_owners\<close>: a database with one
  document and one chunk for each of the owners \<open>u1\<close> and \<open>u2\<close>.
\<close>

definition online :: platform where
  "online = offline\<lparr>featureExtraction := (\<lambda>model inputs. Some (Flat [1, 0]))\<rparr>"

definition doc1 :: KnowledgeDocument where
  "doc1 = \<lparr>id_d = js ''d1'', title_d = js ''Fees'', filename_d = js ''fees.txt'',
            fileType_d = js ''txt'', content_d = Some (js ''tuition''), fileSize_d = Some 7,
            uploadedAt_d = 0, userId_d = js ''u1''\<rparr>"

definition doc2 :: KnowledgeDocument where
  "doc2 = \<lparr>id_d = js ''d2'', title_d = js ''Housing'', filename_d = js ''housing.txt'',
            fileType_d = js ''txt'', content_d = Some (js ''dorms''), fileSize_d = Some 5,
            uploadedAt_d = 2, userId_d = js ''u2''\<rparr>"

definition row1 :: DocumentChunkRow where
  "row1 = \<lparr>content_c = js ''tuition'', embedding_c = [1, 0], chunkIndex_c = 0,
            metadata_c = \<lparr>filename_m = js ''fees.txt'', chunkLength_m = 7, totalChunks_m = 1,
                          fallback_m = False\<rparr>,
            id_c = js ''c1'', documentId_c = js ''d1'', createdAt_c = 1\<rparr>"

definition row2 :: DocumentChunkRow where
  "row2 = \<lparr>content_c = js ''dorms'', embedding_c = [4 / 5, 3 / 5], chunkIndex_c = 0,
            metadata_c = \<lparr>filename_m = js ''housing.txt'', chunkLength_m = 5, totalChunks_m = 1,
                          fallback_m = False\<rparr>,
            id_c = js ''c2'', documentId_c = js ''d2'', createdAt_c = 3\<rparr>"

definition two_owners :: db where
  "two_owners = \<lparr>user_ids = [js ''u1'', js ''u2''], vector_dim = 2,
                  knowledgeDocument = [doc1, doc2], documentChunk = [row1, row2],
                  serial = 4\<rparr>"

text \<open>
  \<open>migrated\<close>: the empty database of the migration, whose embedding column is
  \<open>vector(1536)\<close>, with one user. \<open>doc_a\<close>: the row of a one-byte text upload into it.
  \<open>doc3\<close> and \<open>chunk3\<close>: the rows of a two-byte text upload into \<open>two_owners\<close>.
\<close>

definition migrated :: db where
  "migrated = \<lparr>user_ids = [js ''u1''], vector_dim = 1536, knowledgeDocument = [],
                documentChunk = [], serial = 0\<rparr>"

definition doc_a :: KnowledgeDocument where
  "doc_a = \<lparr>id_d = js ''0'', title_d = js ''A'', filename_d = js ''a.txt'',
             fileType_d = js ''txt'', content_d = Some (js ''a''), fileSize_d = Some 1,
             uploadedAt_d = 0, userId_d = js ''u1''\<rparr>"

definition doc3 :: KnowledgeDocument where
  "doc3 = \<lparr>id_d = js ''4'', title_d = js ''Hi'', filename_d = js ''h.txt'',
            fileType_d = js ''txt'', content_d = Some (js ''hi''), fileSize_d = Some 2,
            uploadedAt_d = 4, userId_d = js ''u1''\<rparr>"

definition chunk3 :: DocumentChunk where
  "chunk3 = \<lparr>content_c = js ''hi'', embedding_c = [1, 0], chunkIndex_c = 0,
              metadata_c = \<lparr>filename_m = js ''h.txt'', chunkLength_m = 2, totalChunks_m = 1,
                            fallback_m = False\<rparr>\<rparr>"

text \<open>
  \<open>uuid_store\<close>: a store with columns of type \<open>uuid\<close>. It reads as a uuid the hyphenated
  form of 32 hexadecimal digits, in either case, and prints it in lower case; any other
  string is refused. \<open>registered\<close>: the documents and chunks of \<open>two_owners\<close> under such
  identifiers.
\<close>

definition hex_digit :: "nat \<Rightarrow> bool" where
  "hex_digit c = (48 \<le> c \<and> c \<le> 57 \<or> 65 \<le> c \<and> c \<le> 70 \<or> 97 \<le> c \<and> c \<le> 102)"

definition hyphenated_uuid :: "js_string \<Rightarrow> js_string option" where
  "hyphenated_uuid s =
     (if length s = 36
         \<and> list_all (\<lambda>(k, c). if k \<in> {8, 13, 18, 23} then c = 45 else hex_digit c)
               (zip [0..<36] s)
      then Some (toLowerCase s) else None)"

definition uuid_store :: platform where
  "uuid_store = offline\<lparr>uuid_in := hyphenated_uuid\<rparr>"

definition user_1 :: js_string where
  "user_1 = js ''11111111-1111-4111-8111-111111111111''"

definition user_2 :: js_string where
  "user_2 = js ''22222222-2222-4222-8222-222222222222''"

definition document_1 :: js_string where
  "document_1 = js ''aaaaaaaa-aaaa-4aaa-8aaa-aaaaaaaaaaaa''"

definition document_2 :: js_string where
  "document_2 = js ''bbbbbbbb-bbbb-4bbb-8bbb-bbbbbbbbbbbb''"

definition registered :: db where
  "registered =
     \<lparr>user_ids = [user_1, user_2], vector_dim = 2,
      knowledgeDocument = [doc1\<lparr>id_d := document_1, userId_d := user_1\<rparr>,
                           doc2\<lparr>id_d := document_2, userId_d := user_2\<rparr>],
      documentChunk = [row1\<lparr>documentId_c := document_1\<rparr>,
                       row2\<lparr>documentId_c := document_2\<rparr>],
      serial = 4\<rparr>"

text \<open>
  \<open>half_sine\<close>: a platform whose sine is \<open>1/2\<close> at the even integers and \<open>-1/2\<close> at the odd
  ones, and whose product of doubles is exact.
\<close>

definition half_sine :: platform where
  "half_sine = offline\<lparr>Math_sin := (\<lambda>n. if even n then 1 / 2 else - (1 / 2))\<rparr>"

text \<open>
  \<open>three_owners\<close>: \<open>two_owners\<close> with a third owner, whose chunk has the similarity
  \<open>35/37\<close> to the vector \<open>(1, 0)\<close>.
\<close>

definition doc_m :: KnowledgeDocument where
  "doc_m = \<lparr>id_d = js ''d3'', title_d = js ''Meals'', filename_d = js ''meals.txt'',
            fileType_d = js ''txt'', content_d = Some (js ''menus''), fileSize_d = Some 5,
            uploadedAt_d = 4, userId_d = js ''u3''\<rparr>"

definition row_m :: DocumentChunkRow where
  "row_m = \<lparr>content_c = js ''menus'', embedding_c = [35 / 37, 12 / 37], chunkIndex_c = 0,
            metadata_c = \<lparr>filename_m = js ''meals.txt'', chunkLength_m = 5, totalChunks_m = 1,
                          fallback_m = False\<rparr>,
            id_c = js ''c3'', documentId_c = js ''d3'', createdAt_c = 5\<rparr>"

definition three_owners :: db where
  "three_owners = \<lparr>user_ids = [js ''u1'', js ''u2'', js ''u3''], vector_dim = 2,
                    knowledgeDocument = [doc1, doc2, doc_m],
                    documentChunk = [row1, row2, row_m], serial = 6\<rparr>"

text \<open>
  \<open>processed_hi\<close>: what \<open>processDocument\<close> makes of the two-byte text upload on \<open>online\<close>.
  \<open>two_chunks\<close>: a splitter that cuts after two code units, and a backend whose reply has
  two components for the text \<open>hi\<close> and three for any other. \<open>processed_hi_bang\<close>,
  \<open>chunk_hi\<close>, \<open>chunk_bang\<close> and \<open>doc_hi_bang\<close>: the four-byte text upload \<open>hi!!\<close> on that
  platform, its two chunks and its row.
\<close>

definition processed_hi :: ProcessedDocument where
  "processed_hi =
     \<lparr>content_p = js ''hi'', chunks_p = [chunk3],
      metadata_p = \<lparr>filename_p = js ''h.txt'', fileType_p = js ''txt'', fileSize_p = 2,
                    totalChunks_p = 1\<rparr>\<rparr>"

definition two_chunks :: platform where
  "two_chunks =
     offline\<lparr>splitText := (\<lambda>t. [take 2 t, drop 2 t]),
             featureExtraction :=
               (\<lambda>model inputs. if inputs = js ''hi'' then Some (Flat [1, 0])
                                else Some (Flat [1, 0, 0]))\<rparr>"

definition chunk_hi :: DocumentChunk where
  "chunk_hi = \<lparr>content_c = js ''hi'', embedding_c = [1, 0], chunkIndex_c = 0,
                metadata_c = \<lparr>filename_m = js ''h.txt'', chunkLength_m = 2, totalChunks_m = 2,
                              fallback_m = False\<rparr>\<rparr>"

definition chunk_bang :: DocumentChunk where
  "chunk_bang = \<lparr>content_c = js ''!!'', embedding_c = [1, 0, 0], chunkIndex_c = 1,
                  metadata_c = \<lparr>filename_m = js ''h.txt'', chunkLength_m = 2, totalChunks_m = 2,
                                fallback_m = False\<rparr>\<rparr>"

definition processed_hi_bang :: ProcessedDocument where
  "processed_hi_bang =
     \<lparr>content_p = js ''hi!!'', chunks_p = [chunk_hi, chunk_bang],
      metadata_p = \<lparr>filename_p = js ''h.txt'', fileType_p = js ''txt'', fileSize_p = 4,
                    totalChunks_p = 2\<rparr>\<rparr>"

definition doc_hi_bang :: KnowledgeDocument where
  "doc_hi_bang = \<lparr>id_d = js ''4'', title_d = js ''Hi'', filename_d = js ''h.txt'',
                   fileType_d = js ''txt'', content_d = Some (js ''hi!!''), fileSize_d = Some 4,
                   uploadedAt_d = 4, userId_d = js ''u1''\<rparr>"



section \<open>Properties\<close>

subsection \<open>The fallback embedding\<close>

lemma to_int32_sint: "to_int32 n = sint (word_of_int n :: 32 word)"
  unfolding to_int32_def by (simp add: int_word_sint)

lemma hash_step_word: "hash_step (sint (w :: 32 word)) c = sint (31 * w + of_nat c)"
proof -
  have "word_of_int (sint (word_of_int (sint w * 32) :: 32 word) - sint w + int c)
          = 31 * w + (of_nat c :: 32 word)"
    by simp
  then show ?thesis
    by (simp add: hash_step_def shl5_def to_int32_sint Let_def)
qed

lemma foldl_hash_step_word:
  "foldl hash_step (sint (w :: 32 word)) s = sint (foldl (\<lambda>h c. 31 * h + of_nat c) w s)"
  by (induction s arbitrary: w) (simp_all add: hash_step_word)

lemma text_hash_poly: "text_hash s = sint (poly_hash32 s)"
  using foldl_hash_step_word [of 0 s] by (simp add: text_hash_def poly_hash32_def)

text \<open>Two values of the hash, the second one wrapped to a negative number.\<close>

lemma text_hash_examples:
  "text_hash (js ''abc'') = 96354"
  "text_hash (js ''The quick brown fox jumps over the lazy dog'') = - 609428141"
  by (simp_all add: text_hash_def js_def hash_step_def shl5_def to_int32_def)

lemma length_createHashBasedEmbedding [simp]: "length (createHashBasedEmbedding P s) = 384"
  by (simp add: createHashBasedEmbedding_def Let_def)

lemma nth_createHashBasedEmbedding:
  "i < 384 \<Longrightarrow>
   createHashBasedEmbedding P s ! i
     = js_mod1 (fmul P (Math_sin P (text_hash s + int i)) (437585453 / 10000))"
  by (simp add: createHashBasedEmbedding_def Let_def)

text \<open>
  \<open>x % 1\<close>: the result differs from \<open>x\<close> by an integer, lies strictly between \<open>-1\<close> and
  \<open>1\<close>, and has the sign of \<open>x\<close>.
\<close>

lemma js_mod1_integer: "\<exists>k :: int. x = of_int k + js_mod1 x"
  by (rule exI [of _ "js_trunc x"]) (simp add: js_mod1_def)

lemma js_mod1_range: "\<bar>js_mod1 x\<bar> < 1"
  unfolding js_mod1_def js_trunc_def by (simp split: if_splits) linarith

lemma js_mod1_sign: "(0 \<le> x \<longrightarrow> 0 \<le> js_mod1 x) \<and> (x \<le> 0 \<longrightarrow> js_mod1 x \<le> 0)"
proof -
  have "of_int \<lfloor>x\<rfloor> \<le> x" and "x \<le> of_int \<lceil>x\<rceil>" by simp_all
  then show ?thesis unfolding js_mod1_def js_trunc_def by auto
qed

text \<open>
  C4. The fallback embedding takes no input but the text: it is the same on two
  platforms that agree on \<open>Math.sin\<close> and on the product of doubles, whatever the
  backends, the store or an earlier call did. The vector has exactly 384 components.
  The hash is the polynomial rolling hash with 32-bit wrap-around, read as a signed
  integer. Component \<open>i\<close> is the double product of \<open>sin (hash + i)\<close> and \<open>43758.5453\<close>
  reduced modulo 1 as \<open>%\<close> does: it differs from the product by an integer, lies
  strictly between \<open>-1\<close> and \<open>1\<close>, and has the sign of the product.
\<close>

theorem createHashBasedEmbedding_deterministic_384:
  "length (createHashBasedEmbedding P s) = 384
   \<and> text_hash s = sint (poly_hash32 s)
   \<and> (Math_sin P = Math_sin Q \<and> fmul P = fmul Q
        \<longrightarrow> createHashBasedEmbedding P s = createHashBasedEmbedding Q s)
   \<and> (\<forall>i<384.
         (\<exists>k :: int.
            fmul P (Math_sin P (sint (poly_hash32 s) + int i)) (437585453 / 10000)
              = of_int k + createHashBasedEmbedding P s ! i)
       \<and> \<bar>createHashBasedEmbedding P s ! i\<bar> < 1
       \<and> (0 \<le> fmul P (Math_sin P (sint (poly_hash32 s) + int i)) (437585453 / 10000)
            \<longrightarrow> 0 \<le> createHashBasedEmbedding P s ! i)
       \<and> (fmul P (Math_sin P (sint (poly_hash32 s) + int i)) (437585453 / 10000) \<le> 0
            \<longrightarrow> createHashBasedEmbedding P s ! i \<le> 0))"
proof (intro conjI allI impI)
  show "length (createHashBasedEmbedding P s) = 384" by simp
  show "text_hash s = sint (poly_hash32 s)" by (rule text_hash_poly)
  show "createHashBasedEmbedding P s = createHashBasedEmbedding Q s"
    if "Math_sin P = Math_sin Q \<and> fmul P = fmul Q"
    using that by (simp add: createHashBasedEmbedding_def)
next
  fix i :: nat
  assume i: "i < 384"
  let ?y = "fmul P (Math_sin P (sint (poly_hash32 s) + int i)) (437585453 / 10000)"
  have c: "createHashBasedEmbedding P s ! i = js_mod1 ?y"
    using i by (simp add: nth_createHashBasedEmbedding text_hash_poly)
  show "\<exists>k :: int. ?y = of_int k + createHashBasedEmbedding P s ! i"
    unfolding c by (rule js_mod1_integer)
  show "\<bar>createHashBasedEmbedding P s ! i\<bar> < 1"
    unfolding c by (rule js_mod1_range)
  show "0 \<le> createHashBasedEmbedding P s ! i" if "0 \<le> ?y"
    unfolding c using that js_mod1_sign [of ?y] by simp
  show "createHashBasedEmbedding P s ! i \<le> 0" if "?y \<le> 0"
    unfolding c using that js_mod1_sign [of ?y] by simp
qed

lemma half_sine_components:
  "createHashBasedEmbedding half_sine [] ! 0 = 5453 / 20000"
  "createHashBasedEmbedding half_sine [] ! 1 = - (5453 / 20000)"
proof -
  have f: "\<lfloor>437585453 / 20000 :: rat\<rfloor> = 21879" "\<lceil>- (437585453 / 20000) :: rat\<rceil> = - 21879"
    by (simp_all add: floor_eq_iff ceiling_eq_iff)
  show "createHashBasedEmbedding half_sine [] ! 0 = 5453 / 20000"
    by (simp add: nth_createHashBasedEmbedding text_hash_def half_sine_def offline_def
          js_mod1_def js_trunc_def f)
  show "createHashBasedEmbedding half_sine [] ! 1 = - (5453 / 20000)"
    by (simp add: nth_createHashBasedEmbedding text_hash_def half_sine_def offline_def
          js_mod1_def js_trunc_def f)
qed

theorem createHashBasedEmbedding_deterministic_384_witness:
  "createHashBasedEmbedding half_sine [] ! 0 = 5453 / 20000
   \<and> createHashBasedEmbedding half_sine [] ! 1 = - (5453 / 20000)
   \<and> fmul half_sine (Math_sin half_sine (sint (poly_hash32 []) + int 0)) (437585453 / 10000)
       = 437585453 / 20000
   \<and> fmul half_sine (Math_sin half_sine (sint (poly_hash32 []) + int 1)) (437585453 / 10000)
       = - (437585453 / 20000)
   \<and> (\<exists>k :: int. 437585453 / 20000 = rat_of_int k + 5453 / 20000)
   \<and> createHashBasedEmbedding half_sine [] = createHashBasedEmbedding (online\<lparr>Math_sin := Math_sin half_sine\<rparr>) []"
proof -
  have y: "fmul half_sine (Math_sin half_sine (sint (poly_hash32 []) + int 0)) (437585453 / 10000)
             = 437585453 / 20000"
    "fmul half_sine (Math_sin half_sine (sint (poly_hash32 []) + int 1)) (437585453 / 10000)
             = - (437585453 / 20000)"
    by (simp_all add: half_sine_def offline_def poly_hash32_def)
  have same: "Math_sin half_sine = Math_sin (online\<lparr>Math_sin := Math_sin half_sine\<rparr>)
      \<and> fmul half_sine = fmul (online\<lparr>Math_sin := Math_sin half_sine\<rparr>)"
    by (simp add: half_sine_def online_def offline_def)
  note t = createHashBasedEmbedding_deterministic_384
             [of half_sine "[]" "online\<lparr>Math_sin := Math_sin half_sine\<rparr>"]
  from t same have eq: "createHashBasedEmbedding half_sine []
      = createHashBasedEmbedding (online\<lparr>Math_sin := Math_sin half_sine\<rparr>) []"
    by blast
  from t have "\<forall>i<384. \<exists>k :: int.
            fmul half_sine (Math_sin half_sine (sint (poly_hash32 []) + int i)) (437585453 / 10000)
              = of_int k + createHashBasedEmbedding half_sine [] ! i"
    by blast
  then have "\<exists>k :: int.
            fmul half_sine (Math_sin half_sine (sint (poly_hash32 []) + int 0)) (437585453 / 10000)
              = of_int k + createHashBasedEmbedding half_sine [] ! 0"
    by (rule allE [of _ 0]) (simp del: of_nat_0)
  then have k: "\<exists>k :: int. 437585453 / 20000 = rat_of_int k + 5453 / 20000"
    by (simp only: y half_sine_components)
  from half_sine_components y k eq show ?thesis by (intro conjI)
qed

subsection \<open>embed\<close>

lemma tryModels_None_iff:
  "tryModels P ms x = None \<longleftrightarrow> (\<forall>m\<in>set ms. featureExtraction P m x = None)"
  by (induction ms) (auto split: option.splits)

lemma tryModels_Some:
  "tryModels P ms x = Some r \<Longrightarrow> \<exists>m\<in>set ms. featureExtraction P m x = Some r"
  by (induction ms) (auto split: option.splits)

lemma tryModels_first_reply:
  "\<forall>m'\<in>set ms1. featureExtraction P m' x = None \<Longrightarrow> featureExtraction P m x = Some r
     \<Longrightarrow> tryModels P (ms1 @ m # ms2) x = Some r"
  by (induction ms1) simp_all

lemma embedQuery_cases:
  "embedQuery P q =
     (case tryModels P models q of
        Some r \<Rightarrow> Inr (flatEmbedding r)
      | None \<Rightarrow> Inr (createHashBasedEmbedding P q))"
  by (simp add: embedQuery_def embedQuery_try_def split: option.splits)

lemma makeChunk_embedding:
  "embedding_c (makeChunk P filename textChunks i) =
     (case tryModels P models (textChunks ! i) of
        Some r \<Rightarrow> flatEmbedding r
      | None \<Rightarrow> createHashBasedEmbedding P (textChunks ! i))"
  by (simp add: makeChunk_def embedChunk_try_def Let_def split: option.splits)

lemma makeChunk_fallback:
  "fallback_m (metadata_c (makeChunk P filename textChunks i))
     \<longleftrightarrow> tryModels P models (textChunks ! i) = None"
  by (simp add: makeChunk_def embedChunk_try_def Let_def split: option.splits)

text \<open>
  C3, as the code has it. For every text \<open>q\<close>, the empty one included, \<open>embedQuery\<close> returns
  a vector and no error. When every model of the list fails, the vector is the
  hash-based one, of 384 components; the same holds for the embedding step of
  \<open>createChunks\<close>, which then marks the chunk as a fallback. When a model replies, the
  result is the reply of the first model that does, as it came (the first row of an
  array of vectors), and the chunk is not marked: its length is whatever the backend
  sent, and is 384 when the replies of the listed models have 384 components.
\<close>

theorem embed_never_raises:
  "(\<exists>v. embedQuery P q = Inr v)
   \<and> ((\<forall>m\<in>set models. featureExtraction P m q = None)
        \<longrightarrow> embedQuery P q = Inr (createHashBasedEmbedding P q)
            \<and> length (createHashBasedEmbedding P q) = 384)
   \<and> ((\<forall>m\<in>set models. featureExtraction P m (textChunks ! i) = None)
        \<longrightarrow> embedding_c (makeChunk P filename textChunks i)
              = createHashBasedEmbedding P (textChunks ! i)
            \<and> fallback_m (metadata_c (makeChunk P filename textChunks i)))
   \<and> (models = ms1 @ m # ms2 \<and> (\<forall>m'\<in>set ms1. featureExtraction P m' q = None)
        \<and> featureExtraction P m q = Some r
        \<longrightarrow> embedQuery P q = Inr (flatEmbedding r))
   \<and> (models = ms1 @ m # ms2 \<and> (\<forall>m'\<in>set ms1. featureExtraction P m' (textChunks ! i) = None)
        \<and> featureExtraction P m (textChunks ! i) = Some r
        \<longrightarrow> embedding_c (makeChunk P filename textChunks i) = flatEmbedding r
            \<and> \<not> fallback_m (metadata_c (makeChunk P filename textChunks i)))
   \<and> ((\<forall>m\<in>set models. \<forall>r. featureExtraction P m q = Some r \<longrightarrow> length (flatEmbedding r) = 384)
        \<longrightarrow> (\<forall>v. embedQuery P q = Inr v \<longrightarrow> length v = 384))
   \<and> ((\<forall>m\<in>set models. \<forall>r. featureExtraction P m (textChunks ! i) = Some r
                            \<longrightarrow> length (flatEmbedding r) = 384)
        \<longrightarrow> length (embedding_c (makeChunk P filename textChunks i)) = 384)"
proof (intro conjI impI allI)
  show "\<exists>v. embedQuery P q = Inr v"
    by (simp add: embedQuery_cases split: option.splits)
next
  assume "\<forall>m\<in>set models. featureExtraction P m q = None"
  then have "tryModels P models q = None" by (simp add: tryModels_None_iff)
  then show "embedQuery P q = Inr (createHashBasedEmbedding P q)"
    by (simp add: embedQuery_cases)
next
  show "length (createHashBasedEmbedding P q) = 384" by simp
next
  assume "\<forall>m\<in>set models. featureExtraction P m (textChunks ! i) = None"
  then have none: "tryModels P models (textChunks ! i) = None" by (simp add: tryModels_None_iff)
  then show "embedding_c (makeChunk P filename textChunks i)
               = createHashBasedEmbedding P (textChunks ! i)"
    by (simp add: makeChunk_embedding)
  from none show "fallback_m (metadata_c (makeChunk P filename textChunks i))"
    by (simp add: makeChunk_fallback)
next
  assume a: "models = ms1 @ m # ms2 \<and> (\<forall>m'\<in>set ms1. featureExtraction P m' q = None)
        \<and> featureExtraction P m q = Some r"
  then have "\<forall>m'\<in>set ms1. featureExtraction P m' q = None" "featureExtraction P m q = Some r"
    by blast+
  then have "tryModels P (ms1 @ m # ms2) q = Some r" by (rule tryModels_first_reply)
  moreover from a have "ms1 @ m # ms2 = models" by simp
  ultimately have "tryModels P models q = Some r" by (simp only:)
  then show "embedQuery P q = Inr (flatEmbedding r)" by (simp add: embedQuery_cases)
next
  assume a: "models = ms1 @ m # ms2 \<and> (\<forall>m'\<in>set ms1. featureExtraction P m' (textChunks ! i) = None)
        \<and> featureExtraction P m (textChunks ! i) = Some r"
  then have "\<forall>m'\<in>set ms1. featureExtraction P m' (textChunks ! i) = None"
    "featureExtraction P m (textChunks ! i) = Some r"
    by blast+
  then have "tryModels P (ms1 @ m # ms2) (textChunks ! i) = Some r"
    by (rule tryModels_first_reply)
  moreover from a have "ms1 @ m # ms2 = models" by simp
  ultimately have some: "tryModels P models (textChunks ! i) = Some r" by (simp only:)
  then show "embedding_c (makeChunk P filename textChunks i) = flatEmbedding r"
    by (simp add: makeChunk_embedding)
  from some show "\<not> fallback_m (metadata_c (makeChunk P filename textChunks i))"
    by (simp add: makeChunk_fallback)
next
  fix v
  assume dims: "\<forall>m\<in>set models. \<forall>r. featureExtraction P m q = Some r \<longrightarrow> length (flatEmbedding r) = 384"
    and v: "embedQuery P q = Inr v"
  show "length v = 384"
  proof (cases "tryModels P models q")
    case None
    with v show ?thesis by (auto simp: embedQuery_cases)
  next
    case (Some r)
    with tryModels_Some [OF Some] dims v show ?thesis
      by (auto simp: embedQuery_cases)
  qed
next
  assume dims: "\<forall>m\<in>set models. \<forall>r. featureExtraction P m (textChunks ! i) = Some r
                            \<longrightarrow> length (flatEmbedding r) = 384"
  show "length (embedding_c (makeChunk P filename textChunks i)) = 384"
  proof (cases "tryModels P models (textChunks ! i)")
    case None
    then show ?thesis by (simp add: makeChunk_embedding)
  next
    case (Some r)
    with tryModels_Some [OF Some] dims show ?thesis
      by (auto simp: makeChunk_embedding)
  qed
qed

theorem embed_never_raises_witness:
  "embedQuery offline [] = Inr (createHashBasedEmbedding offline [])
   \<and> length (createHashBasedEmbedding offline []) = 384
   \<and> embedding_c (makeChunk offline (js ''a.txt'') [js ''abc''] 0)
       = createHashBasedEmbedding offline (js ''abc'')
   \<and> fallback_m (metadata_c (makeChunk offline (js ''a.txt'') [js ''abc''] 0))
   \<and> embedQuery second_model_up (js ''fees'') = Inr (1 # replicate 383 0)
   \<and> embedding_c (makeChunk second_model_up (js ''a.txt'') [js ''abc''] 0) = 1 # replicate 383 0
   \<and> \<not> fallback_m (metadata_c (makeChunk second_model_up (js ''a.txt'') [js ''abc''] 0))
   \<and> length (embedding_c (makeChunk second_model_up (js ''a.txt'') [js ''abc''] 0)) = 384"
proof -
  have off: "\<forall>m\<in>set models. featureExtraction offline m x = None" for x
    by (simp add: offline_def)
  have up: "\<forall>m\<in>set models. \<forall>r. featureExtraction second_model_up m x = Some r
              \<longrightarrow> length (flatEmbedding r) = 384" for x
    by (simp add: second_model_up_def offline_def)
  have parts: "models = [models ! 0] @ models ! 1 # [models ! 2]"
    by (simp add: models_def)
  have first: "\<forall>m'\<in>set [models ! 0]. featureExtraction second_model_up m' x = None" for x
    by (simp add: second_model_up_def offline_def models_def js_def)
  have second: "featureExtraction second_model_up (models ! 1) x = Some (Nested [1 # replicate 383 0])"
    for x
    by (simp add: second_model_up_def offline_def)
  from embed_never_raises [of offline "[]" "[js ''abc'']" 0 "js ''a.txt''"] off
  have a: "embedQuery offline [] = Inr (createHashBasedEmbedding offline [])
     \<and> embedding_c (makeChunk offline (js ''a.txt'') [js ''abc''] 0)
       = createHashBasedEmbedding offline ([js ''abc''] ! 0)
     \<and> fallback_m (metadata_c (makeChunk offline (js ''a.txt'') [js ''abc''] 0))"
    by blast
  note t = embed_never_raises [of second_model_up "js ''fees''" "[js ''abc'']" 0 "js ''a.txt''"
             "[models ! 0]" "models ! 1" "[models ! 2]" "Nested [1 # replicate 383 0]"]
  from t up
  have b: "length (embedding_c (makeChunk second_model_up (js ''a.txt'') [js ''abc''] 0)) = 384"
    by blast
  from t parts first second
  have c: "embedQuery second_model_up (js ''fees'')
             = Inr (flatEmbedding (Nested [1 # replicate 383 0]))
     \<and> embedding_c (makeChunk second_model_up (js ''a.txt'') [js ''abc''] 0)
         = flatEmbedding (Nested [1 # replicate 383 0])
     \<and> \<not> fallback_m (metadata_c (makeChunk second_model_up (js ''a.txt'') [js ''abc''] 0))"
    by blast
  from a b c show ?thesis by simp
qed

text \<open>
  C3 as the specification words it fails on a backend that replies with a vector of
  another length: every model of \<open>online\<close> replies \<open>(1, 0)\<close>, and \<open>embedQuery\<close> returns
  these two components, not 384; the embedding step of \<open>createChunks\<close> stores them.
\<close>

theorem embedQuery_dimension_counterexample:
  "embedQuery online (js ''fees'') = Inr [1, 0]
   \<and> length ([1, 0] :: rat list) \<noteq> 384
   \<and> embedding_c (makeChunk online (js ''a.txt'') [js ''abc''] 0) = [1, 0]"
  by (simp add: embedQuery_cases makeChunk_embedding online_def offline_def models_def)

subsection \<open>extract\<close>

text \<open>The digits written by \<open>decimal\<close> are decimal digits and read back as the number.\<close>

lemma decimal_value: "foldl (\<lambda>a c. 10 * a + (c - 48)) 0 (decimal n) = n"
proof (induction n rule: decimal.induct)
  case (1 n)
  show ?case
  proof (cases "n < 10")
    case True
    then show ?thesis by (subst decimal.simps) simp
  next
    case False
    with 1 show ?thesis by (subst decimal.simps) simp
  qed
qed

lemma decimal_digits: "list_all (\<lambda>c. 48 \<le> c \<and> c \<le> 57) (decimal n)"
proof (induction n rule: decimal.induct)
  case (1 n)
  show ?case
  proof (cases "n < 10")
    case True
    then show ?thesis by (subst decimal.simps) simp
  next
    case False
    have "n mod 10 < 10" by simp
    then have "48 + n mod 10 \<le> 57" by linarith
    with False 1 show ?thesis by (subst decimal.simps) simp
  qed
qed

lemma decimal_2048: "decimal 2048 = js ''2048''"
  by (simp add: decimal.simps js_def)

lemma processDocument_pdf:
  "toLowerCase fileType = js ''pdf'' \<Longrightarrow>
   processDocument P buffer filename fileType =
     (case processPDF P buffer of
        Inl e \<Rightarrow> Inl e
      | Inr content \<Rightarrow>
          Inr \<lparr>content_p = content, chunks_p = createChunks P content filename,
               metadata_p = \<lparr>filename_p = filename, fileType_p = fileType,
                             fileSize_p = length buffer,
                             totalChunks_p = length (createChunks P content filename)\<rparr>\<rparr>)"
  by (simp add: processDocument_def Let_def split: sum.splits)

text \<open>
  C8. When the declared kind is \<open>pdf\<close> (in any letter case) and the parser delivers its
  data, a PDF without recoverable text does not fail \<open>processDocument\<close>. If the text
  trims to nothing, the content is the sentence that the PDF appears to be empty,
  ending in \<open>File size: n bytes.\<close>; if a run cannot be decoded, it is the sentence that
  the text could not be extracted, with the same ending. In both, \<open>n\<close> is the length of
  the buffer in decimal digits, which read back as that length. A kind other than
  \<open>pdf\<close>, \<open>txt\<close> and \<open>image\<close> fails with the error \<open>Unsupported file type\<close> followed by
  the kind.
\<close>

theorem extract_pdf_placeholder_unsupported_kind:
  "(toLowerCase fileType = js ''pdf'' \<and> pdf2json P buffer = pdfParser_dataReady pdfData
      \<and> pdf_text P pdfData = None
     \<longrightarrow> (\<exists>r. processDocument P buffer filename fileType = Inr r
              \<and> content_p r
                  = js ''[PDF Content] - Could not extract text from this PDF. It may contain only images or be encrypted. File size: ''
                    @ decimal (length buffer) @ js '' bytes.''))
   \<and> (toLowerCase fileType = js ''pdf'' \<and> pdf2json P buffer = pdfParser_dataReady pdfData
      \<and> pdf_text P pdfData = Some t \<and> trim t = []
     \<longrightarrow> (\<exists>r. processDocument P buffer filename fileType = Inr r
              \<and> content_p r
                  = js ''[PDF Content] - This PDF appears to be empty or contains only images. File size: ''
                    @ decimal (length buffer) @ js '' bytes.''))
   \<and> list_all (\<lambda>c. 48 \<le> c \<and> c \<le> 57) (decimal (length buffer))
   \<and> foldl (\<lambda>a c. 10 * a + (c - 48)) 0 (decimal (length buffer)) = length buffer
   \<and> (toLowerCase fileType \<notin> {js ''pdf'', js ''txt'', js ''image''}
     \<longrightarrow> processDocument P buffer filename fileType
           = Inl (Error (js ''Unsupported file type: '' @ fileType)))"
proof (intro conjI impI)
  assume "toLowerCase fileType = js ''pdf'' \<and> pdf2json P buffer = pdfParser_dataReady pdfData
      \<and> pdf_text P pdfData = None"
  then show "\<exists>r. processDocument P buffer filename fileType = Inr r
              \<and> content_p r
                  = js ''[PDF Content] - Could not extract text from this PDF. It may contain only images or be encrypted. File size: ''
                    @ decimal (length buffer) @ js '' bytes.''"
    by (simp add: processDocument_pdf processPDF_def unreadable_pdf_message_def)
next
  assume "toLowerCase fileType = js ''pdf'' \<and> pdf2json P buffer = pdfParser_dataReady pdfData
      \<and> pdf_text P pdfData = Some t \<and> trim t = []"
  then show "\<exists>r. processDocument P buffer filename fileType = Inr r
              \<and> content_p r
                  = js ''[PDF Content] - This PDF appears to be empty or contains only images. File size: ''
                    @ decimal (length buffer) @ js '' bytes.''"
    by (simp add: processDocument_pdf processPDF_def empty_pdf_message_def)
next
  show "list_all (\<lambda>c. 48 \<le> c \<and> c \<le> 57) (decimal (length buffer))" by (rule decimal_digits)
  show "foldl (\<lambda>a c. 10 * a + (c - 48)) 0 (decimal (length buffer)) = length buffer"
    by (rule decimal_value)
next
  assume "toLowerCase fileType \<notin> {js ''pdf'', js ''txt'', js ''image''}"
  then show "processDocument P buffer filename fileType
           = Inl (Error (js ''Unsupported file type: '' @ fileType))"
    by (simp add: processDocument_def Let_def)
qed

theorem extract_pdf_placeholder_unsupported_kind_witness:
  "(\<exists>r. processDocument offline (replicate 2048 0) (js ''scan.pdf'') (js ''PDF'') = Inr r
        \<and> content_p r
            = js ''[PDF Content] - This PDF appears to be empty or contains only images. File size: 2048 bytes.'')
   \<and> (\<exists>r. processDocument undecodable_pdf (replicate 2048 0) (js ''scan.pdf'') (js ''pdf'') = Inr r
        \<and> content_p r
            = js ''[PDF Content] - Could not extract text from this PDF. It may contain only images or be encrypted. File size: 2048 bytes.'')
   \<and> decimal 2048 = [50, 48, 52, 56]
   \<and> processDocument offline [80, 75] (js ''notes.docx'') (js ''docx'')
       = Inl (Error (js ''Unsupported file type: docx''))"
proof -
  have a: "toLowerCase (js ''PDF'') = js ''pdf''
      \<and> pdf2json offline (replicate 2048 0) = pdfParser_dataReady (PdfData (Some [Page (Some [])]))
      \<and> pdf_text offline (PdfData (Some [Page (Some [])])) = Some [10] \<and> trim [10] = []"
    by (simp add: toLowerCase_def js_def offline_def pdf_text_def trim_def js_whitespace_def)
  have b: "toLowerCase (js ''pdf'') = js ''pdf''
      \<and> pdf2json undecodable_pdf (replicate 2048 0) = pdfParser_dataReady undecodable
      \<and> pdf_text undecodable_pdf undecodable = None"
    by (simp add: toLowerCase_def js_def offline_def undecodable_pdf_def undecodable_def
          pdf_text_def truthy_def)
  have len: "length (replicate 2048 (0 :: nat)) = 2048" by simp
  have c: "toLowerCase (js ''docx'') \<notin> {js ''pdf'', js ''txt'', js ''image''}"
    by (simp add: toLowerCase_def js_def)
  from extract_pdf_placeholder_unsupported_kind
         [of "js ''PDF''" offline "replicate 2048 0" "PdfData (Some [Page (Some [])])"
             "js ''scan.pdf''" "[10]", unfolded len decimal_2048] a
  have 1: "\<exists>r. processDocument offline (replicate 2048 0) (js ''scan.pdf'') (js ''PDF'') = Inr r
        \<and> content_p r
            = js ''[PDF Content] - This PDF appears to be empty or contains only images. File size: ''
              @ js ''2048'' @ js '' bytes.''"
    by blast
  from extract_pdf_placeholder_unsupported_kind
         [of "js ''pdf''" undecodable_pdf "replicate 2048 0" undecodable "js ''scan.pdf''",
          unfolded len decimal_2048] b
  have 2: "\<exists>r. processDocument undecodable_pdf (replicate 2048 0) (js ''scan.pdf'') (js ''pdf'') = Inr r
        \<and> content_p r
            = js ''[PDF Content] - Could not extract text from this PDF. It may contain only images or be encrypted. File size: ''
              @ js ''2048'' @ js '' bytes.''"
    by blast
  from extract_pdf_placeholder_unsupported_kind
         [of "js ''docx''" offline "[80, 75]" _ "js ''notes.docx''"] c
  have 3: "processDocument offline [80, 75] (js ''notes.docx'') (js ''docx'')
       = Inl (Error (js ''Unsupported file type: '' @ js ''docx''))"
    by blast
  have 4: "decimal 2048 = [50, 48, 52, 56]" by (simp add: decimal_2048 js_def)
  have j: "js x @ js y = js (x @ y)" for x y by (simp add: js_def)
  from 1 2 3 4 show ?thesis by (simp only: j append.simps)
qed

subsection \<open>searchSimilar\<close>

lemma embedQuery_query_vector: "embedQuery P q = Inr (query_vector P q)"
  by (simp add: embedQuery_cases query_vector_def split: option.splits)

text \<open>The rows of the query before the limit: selected, and ordered by similarity.\<close>

lemma searchSimilar_eq:
  "searchSimilar P db q limit th owner =
     (case limit_clause_of P limit of
        Unlimited \<Rightarrow>
          Inr (map (result_of P q)
                 (sort_key (\<lambda>row. - similarity_of P q (fst row)) (selected P db q th owner)))
      | Limit n \<Rightarrow>
          Inr (map (result_of P q)
                 (take n
                    (sort_key (\<lambda>row. - similarity_of P q (fst row)) (selected P db q th owner))))
      | Limit_refused \<Rightarrow> Inl (Error (js ''Failed to search knowledge base'')))"
proof -
  have f: "(\<lambda>(c, d). g c d) = (\<lambda>row. g (fst row) (snd row))" for g :: "DocumentChunkRow \<Rightarrow> KnowledgeDocument \<Rightarrow> 'x"
    by (simp add: fun_eq_iff)
  show ?thesis
    unfolding searchSimilar_def searchSimilar_try_def embedQuery_query_vector
    by (simp add: Let_def selected_def joined_def similarity_of_def [abs_def] result_of_def [abs_def]
          f case_prod_beta cong: filter_cong split: limit_clause.splits)
qed

lemma limit_clause_of_positive: "1 \<le> limit \<Longrightarrow> limit_clause_of P limit = Limit (nat limit)"
  by (simp add: limit_clause_of_def)

lemma limit_clause_of_below_one: "limit < 1 \<Longrightarrow> limit_clause_of P limit = limit_below_one P limit"
  by (simp add: limit_clause_of_def)

lemma set_sort_key_take:
  "r \<in> set (take n (sort_key f xs)) \<Longrightarrow> r \<in> set xs"
  by (auto dest: in_set_takeD)

lemma searchSimilar_results:
  assumes "searchSimilar P db q limit th owner = Inr rs" and "r \<in> set rs"
  shows "\<exists>row\<in>set (selected P db q th owner). r = result_of P q row"
proof (cases "limit_clause_of P limit")
  case Unlimited
  with assms show ?thesis by (auto simp: searchSimilar_eq)
next
  case (Limit n)
  with assms(1) have rs: "rs = map (result_of P q)
      (take n (sort_key (\<lambda>row. - similarity_of P q (fst row)) (selected P db q th owner)))"
    by (auto simp: searchSimilar_eq)
  from assms(2) show ?thesis unfolding rs by (auto dest: set_sort_key_take)
next
  case Limit_refused
  with assms show ?thesis by (simp add: searchSimilar_eq)
qed

text \<open>
  C1, as the code has it. Whenever \<open>searchSimilar\<close> returns results, each has a
  similarity strictly above the threshold, each pairs a stored chunk with the stored
  document it refers to, and, when the owner passed is a non-empty string, each document
  belongs to that owner. There are at most \<open>limit\<close> results when \<open>limit\<close> is at least 1.
  Below 1 the bound is the one the platform makes of the limit: the number it keeps, or
  none at all when it drops the clause, and then every selected row is returned.
\<close>

theorem searchSimilar_threshold_limit_owner:
  assumes "searchSimilar P db q limit th owner = Inr rs"
  shows "(\<forall>r\<in>set rs. similarity_s r > th)
         \<and> (1 \<le> limit \<longrightarrow> int (length rs) \<le> limit)
         \<and> (limit < 1 \<and> limit_below_one P limit = Limit n \<longrightarrow> length rs \<le> n)
         \<and> (limit < 1 \<and> limit_below_one P limit = Unlimited
              \<longrightarrow> length rs = length (selected P db q th owner))
         \<and> (\<forall>r\<in>set rs. chunk_s r \<in> set (documentChunk db)
                        \<and> document_s r \<in> set (knowledgeDocument db)
                        \<and> documentId_c (chunk_s r) = id_d (document_s r))
         \<and> (\<forall>u. owner = Some u \<and> u \<noteq> [] \<longrightarrow> (\<forall>r\<in>set rs. userId_d (document_s r) = u))"
proof -
  have sel: "\<exists>row\<in>set (selected P db q th owner). r = result_of P q row" if "r \<in> set rs" for r
    using assms that by (rule searchSimilar_results)
  have 1: "\<forall>r\<in>set rs. similarity_s r > th"
    using sel by (fastforce simp: selected_def result_of_def)
  have 2: "1 \<le> limit \<longrightarrow> int (length rs) \<le> limit"
    using assms by (auto simp: searchSimilar_eq limit_clause_of_positive)
  have 3: "limit < 1 \<and> limit_below_one P limit = Limit n \<longrightarrow> length rs \<le> n"
    using assms by (auto simp: searchSimilar_eq limit_clause_of_below_one)
  have 4: "limit < 1 \<and> limit_below_one P limit = Unlimited
              \<longrightarrow> length rs = length (selected P db q th owner)"
    using assms by (auto simp: searchSimilar_eq limit_clause_of_below_one)
  have 5: "\<forall>r\<in>set rs. chunk_s r \<in> set (documentChunk db)
                        \<and> document_s r \<in> set (knowledgeDocument db)
                        \<and> documentId_c (chunk_s r) = id_d (document_s r)"
    using sel by (fastforce simp: selected_def joined_def result_of_def)
  have 6: "\<forall>u. owner = Some u \<and> u \<noteq> [] \<longrightarrow> (\<forall>r\<in>set rs. userId_d (document_s r) = u)"
    using sel by (fastforce simp: selected_def result_of_def truthy_def)
  from 1 2 3 4 5 6 show ?thesis by blast
qed

lemmas search_sample_defs =
  selected_def joined_def similarity_of_def query_vector_def result_of_def online_def
  offline_def models_def two_owners_def doc1_def doc2_def row1_def row2_def truthy_def dot_def
  js_def limit_clause_of_def

lemma search_u1:
  "searchSimilar online two_owners (js ''fees'') 5 (1 / 5) (Some (js ''u1''))
     = Inr [\<lparr>chunk_s = row1, document_s = doc1, similarity_s = 1\<rparr>]"
  by (simp add: searchSimilar_eq search_sample_defs)

lemma search_limit_0:
  "searchSimilar online two_owners (js ''fees'') 0 (1 / 5) (Some (js ''u1'')) = Inr []"
  by (simp add: searchSimilar_eq search_sample_defs)

lemma search_limit_negative:
  "searchSimilar online two_owners (js ''fees'') (- 1) (1 / 5) (Some (js ''u1''))
     = Inr [\<lparr>chunk_s = row1, document_s = doc1, similarity_s = 1\<rparr>]"
  by (simp add: searchSimilar_eq search_sample_defs)

lemma search_empty_owner:
  "searchSimilar online two_owners (js ''fees'') 5 (1 / 5) (Some [])
     = Inr [\<lparr>chunk_s = row1, document_s = doc1, similarity_s = 1\<rparr>,
            \<lparr>chunk_s = row2, document_s = doc2, similarity_s = 4 / 5\<rparr>]"
  by (simp add: searchSimilar_eq search_sample_defs)

theorem searchSimilar_threshold_limit_owner_witness:
  "searchSimilar online two_owners (js ''fees'') 5 (1 / 5) (Some (js ''u1''))
     = Inr [\<lparr>chunk_s = row1, document_s = doc1, similarity_s = 1\<rparr>]
   \<and> (1 :: rat) > 1 / 5
   \<and> int (length [\<lparr>chunk_s = row1, document_s = doc1, similarity_s = 1\<rparr>]) \<le> 5
   \<and> row1 \<in> set (documentChunk two_owners)
   \<and> doc1 \<in> set (knowledgeDocument two_owners)
   \<and> documentId_c row1 = id_d doc1
   \<and> userId_d doc1 = js ''u1''
   \<and> searchSimilar online two_owners (js ''fees'') 0 (1 / 5) (Some (js ''u1'')) = Inr []
   \<and> limit_below_one online 0 = Limit 0
   \<and> limit_below_one online (- 1) = Unlimited
   \<and> length (selected online two_owners (js ''fees'') (1 / 5) (Some (js ''u1''))) = 1"
proof -
  have l: "limit_below_one online 0 = Limit 0" "limit_below_one online (- 1) = Unlimited"
    by (simp_all add: online_def offline_def)
  from searchSimilar_threshold_limit_owner [OF search_limit_negative, of 0] l
  have "length (selected online two_owners (js ''fees'') (1 / 5) (Some (js ''u1''))) = 1"
    by simp
  with searchSimilar_threshold_limit_owner [OF search_u1, of 0]
    searchSimilar_threshold_limit_owner [OF search_limit_0, of 0] search_u1 search_limit_0 l
  show ?thesis
    by (simp add: js_def)
qed

text \<open>
  C1 as the specification words it fails in two ways. For the owner \<open>""\<close> the guard
  \<open>if (userId)\<close> is false, no owner condition is pushed, and the chunks of \<open>u1\<close> and \<open>u2\<close>
  are returned. For the limit \<open>-1\<close> the clause is dropped and a result is returned, one
  more than the limit allows.
\<close>

theorem searchSimilar_empty_owner_counterexample:
  "searchSimilar online two_owners (js ''fees'') 5 (1 / 5) (Some [])
     = Inr [\<lparr>chunk_s = row1, document_s = doc1, similarity_s = 1\<rparr>,
            \<lparr>chunk_s = row2, document_s = doc2, similarity_s = 4 / 5\<rparr>]
   \<and> userId_d doc1 \<noteq> [] \<and> userId_d doc2 \<noteq> []
   \<and> searchSimilar online two_owners (js ''fees'') (- 1) (1 / 5) (Some (js ''u1''))
       = Inr [\<lparr>chunk_s = row1, document_s = doc1, similarity_s = 1\<rparr>]
   \<and> \<not> int (length [\<lparr>chunk_s = row1, document_s = doc1, similarity_s = 1\<rparr>]) \<le> - 1"
  using search_empty_owner search_limit_negative by (simp add: doc1_def doc2_def js_def)

lemma length_inner_join:
  "length (concat (map (\<lambda>d. if p d then [f d] else []) ys)) \<le> length ys"
  by (induction ys) auto

lemma length_joined: "length (joined db) \<le> length (documentChunk db) * length (knowledgeDocument db)"
proof -
  have "length (concat (map (\<lambda>c. concat (map (\<lambda>d. if p c d then [(c, d)] else []) ys)) xs))
          \<le> length xs * length ys" for p :: "'x \<Rightarrow> 'y \<Rightarrow> bool" and xs ys
  proof (induction xs)
    case Nil
    show ?case by simp
  next
    case (Cons x xs)
    have "length (concat (map (\<lambda>d. if p x d then [(x, d)] else []) ys)) \<le> length ys"
      by (rule length_inner_join)
    with Cons show ?case by simp
  qed
  then show ?thesis by (simp add: joined_def)
qed

text \<open>
  C10. \<open>userId\<close> is optional. When it is omitted the query has no owner condition: a
  chunk above the threshold is returned together with its document, whoever owns the
  document, as soon as the limit leaves room for every row of the join; the call
  returns what a call with the empty string returns. When a non-empty owner is passed,
  every result belongs to that owner.
\<close>

theorem searchSimilar_without_owner:
  "(embedQuery P q = Inr v
      \<and> c \<in> set (documentChunk db) \<and> d \<in> set (knowledgeDocument db)
      \<and> documentId_c c = id_d d
      \<and> 1 - cosine_distance P (embedding_c c) v > th
      \<and> int (length (documentChunk db) * length (knowledgeDocument db)) \<le> limit
     \<longrightarrow> (\<exists>rs. searchSimilar P db q limit th None = Inr rs
              \<and> \<lparr>chunk_s = c, document_s = d,
                  similarity_s = 1 - cosine_distance P (embedding_c c) v\<rparr> \<in> set rs))
   \<and> searchSimilar P db q limit th None = searchSimilar P db q limit th (Some [])
   \<and> (u \<noteq> [] \<and> searchSimilar P db q limit th (Some u) = Inr rs'
     \<longrightarrow> (\<forall>r\<in>set rs'. userId_d (document_s r) = u))"
proof (intro conjI impI)
  assume a: "embedQuery P q = Inr v
      \<and> c \<in> set (documentChunk db) \<and> d \<in> set (knowledgeDocument db)
      \<and> documentId_c c = id_d d
      \<and> 1 - cosine_distance P (embedding_c c) v > th
      \<and> int (length (documentChunk db) * length (knowledgeDocument db)) \<le> limit"
  then have v: "v = query_vector P q" by (simp add: embedQuery_query_vector)
  let ?sel = "selected P db q th None"
  from a have "0 < length (documentChunk db)" "0 < length (knowledgeDocument db)"
    by (auto simp: length_greater_0_conv)
  then have "0 < length (documentChunk db) * length (knowledgeDocument db)" by simp
  with a have limit: "1 \<le> limit" by linarith
  have "length ?sel \<le> length (joined db)" by (simp add: selected_def)
  also have "\<dots> \<le> length (documentChunk db) * length (knowledgeDocument db)" by (rule length_joined)
  finally have "length ?sel \<le> nat limit" using a by linarith
  then have all: "take (nat limit) (sort_key (\<lambda>row. - similarity_of P q (fst row)) ?sel)
                    = sort_key (\<lambda>row. - similarity_of P q (fst row)) ?sel"
    by simp
  from a have "(c, d) \<in> set (joined db)" by (auto simp: joined_def)
  with a have "(c, d) \<in> set ?sel"
    by (simp add: selected_def similarity_of_def v truthy_def)
  then have "result_of P q (c, d)
               \<in> set (map (result_of P q) (sort_key (\<lambda>row. - similarity_of P q (fst row)) ?sel))"
    by simp
  with all
  show "\<exists>rs. searchSimilar P db q limit th None = Inr rs
              \<and> \<lparr>chunk_s = c, document_s = d,
                  similarity_s = 1 - cosine_distance P (embedding_c c) v\<rparr> \<in> set rs"
    by (simp add: searchSimilar_eq limit_clause_of_positive [OF limit] result_of_def
          similarity_of_def v)
next
  have s: "selected P db q th None = selected P db q th (Some [])"
    by (simp add: selected_def truthy_def)
  show "searchSimilar P db q limit th None = searchSimilar P db q limit th (Some [])"
    unfolding searchSimilar_eq s by (rule refl)
next
  assume b: "u \<noteq> [] \<and> searchSimilar P db q limit th (Some u) = Inr rs'"
  then have "\<exists>row\<in>set (selected P db q th (Some u)). r = result_of P q row" if "r \<in> set rs'" for r
    using that searchSimilar_results by blast
  with b show "\<forall>r\<in>set rs'. userId_d (document_s r) = u"
    by (fastforce simp: selected_def result_of_def truthy_def)
qed

lemma search_no_owner:
  "searchSimilar online two_owners (js ''fees'') 5 (1 / 5) None
     = Inr [\<lparr>chunk_s = row1, document_s = doc1, similarity_s = 1\<rparr>,
            \<lparr>chunk_s = row2, document_s = doc2, similarity_s = 4 / 5\<rparr>]"
  by (simp add: searchSimilar_eq search_sample_defs)

theorem searchSimilar_without_owner_witness:
  "(\<exists>rs. searchSimilar online two_owners (js ''fees'') 5 (1 / 5) None = Inr rs
         \<and> \<lparr>chunk_s = row2, document_s = doc2, similarity_s = 4 / 5\<rparr> \<in> set rs
         \<and> \<lparr>chunk_s = row1, document_s = doc1, similarity_s = 1\<rparr> \<in> set rs)
   \<and> userId_d doc1 = js ''u1'' \<and> userId_d doc2 = js ''u2''
   \<and> searchSimilar online two_owners (js ''fees'') 5 (1 / 5) (Some (js ''u2''))
       = Inr [\<lparr>chunk_s = row2, document_s = doc2, similarity_s = 4 / 5\<rparr>]"
proof -
  have v: "embedQuery online (js ''fees'') = Inr [1, 0]"
    by (simp add: embedQuery_cases online_def offline_def models_def)
  have pre: "embedQuery online (js ''fees'') = Inr [1, 0]
      \<and> row2 \<in> set (documentChunk two_owners) \<and> doc2 \<in> set (knowledgeDocument two_owners)
      \<and> documentId_c row2 = id_d doc2
      \<and> 1 - cosine_distance online (embedding_c row2) [1, 0] > 1 / 5
      \<and> int (length (documentChunk two_owners) * length (knowledgeDocument two_owners)) \<le> 5"
    using v by (simp add: two_owners_def row2_def doc2_def online_def offline_def dot_def)
  have sim: "1 - cosine_distance online (embedding_c row2) [1, 0] = 4 / 5"
    by (simp add: row2_def online_def offline_def dot_def)
  have u2: "searchSimilar online two_owners (js ''fees'') 5 (1 / 5) (Some (js ''u2''))
       = Inr [\<lparr>chunk_s = row2, document_s = doc2, similarity_s = 4 / 5\<rparr>]"
    by (simp add: searchSimilar_eq search_sample_defs)
  from searchSimilar_without_owner
         [of online "js ''fees''" "[1, 0]" row2 two_owners doc2 "1 / 5" 5 "js ''u2''"] pre
  have "\<exists>rs. searchSimilar online two_owners (js ''fees'') 5 (1 / 5) None = Inr rs
         \<and> \<lparr>chunk_s = row2, document_s = doc2,
             similarity_s = 1 - cosine_distance online (embedding_c row2) [1, 0]\<rparr> \<in> set rs"
    by blast
  with search_no_owner u2 show ?thesis
    by (simp add: sim doc1_def doc2_def)
qed

subsection \<open>The search tool\<close>

lemma js_nonempty: "js (c # s) \<noteq> []"
  by (simp add: js_def)

lemma Math_round_nearest:
  "rat_of_int (Math_round x) \<le> x + 1 / 2 \<and> x - 1 / 2 < rat_of_int (Math_round x)"
  unfolding Math_round_def by linarith

text \<open>
  C9. \<open>execute\<close> returns an object on every path. It reports success exactly when the
  caller is authenticated and the search returns at least one result; otherwise the
  message is non-empty and the result list is empty: \<open>No relevant information found\<close>
  for an empty search, \<open>Error searching documents\<close>, with the message of the error, when
  \<open>auth\<close> or the search throws. On success the entry at index \<open>i\<close> has rank \<open>i + 1\<close>, the
  content of the chunk, the title and the file name of its document, and
  \<open>Math.round(similarity * 100)\<close>: the integer \<open>n\<close> with \<open>p - 1/2 < n \<le> p + 1/2\<close> for the
  double product \<open>p\<close> of the similarity and 100.
\<close>

theorem execute_never_throws:
  "(success_t (execute P db auth query limit)
      \<longleftrightarrow> (\<exists>uid rs. auth = Inr uid \<and> truthy uid
                    \<and> searchSimilar P db query limit (1 / 5) uid = Inr rs \<and> rs \<noteq> []))
   \<and> (success_t (execute P db auth query limit)
       \<or> message_t (execute P db auth query limit) \<noteq> []
         \<and> results_t (execute P db auth query limit) = [])
   \<and> (auth = Inr uid \<and> truthy uid \<and> searchSimilar P db query limit (1 / 5) uid = Inr []
     \<longrightarrow> \<not> success_t (execute P db auth query limit)
         \<and> message_t (execute P db auth query limit)
             = js ''No relevant information found in uploaded documents.''
         \<and> results_t (execute P db auth query limit) = [])
   \<and> ((auth = Inl e \<or> auth = Inr uid \<and> truthy uid
                         \<and> searchSimilar P db query limit (1 / 5) uid = Inl e)
     \<longrightarrow> \<not> success_t (execute P db auth query limit)
         \<and> message_t (execute P db auth query limit) = js ''Error searching documents''
         \<and> results_t (execute P db auth query limit) = []
         \<and> error_t (execute P db auth query limit) = Some (error_message e))
   \<and> (auth = Inr uid \<and> truthy uid \<and> searchSimilar P db query limit (1 / 5) uid = Inr rs
      \<and> rs \<noteq> []
     \<longrightarrow> length (results_t (execute P db auth query limit)) = length rs
         \<and> (\<forall>i<length rs.
               results_t (execute P db auth query limit) ! i
                 = \<lparr>rank_t = i + 1,
                    content_t = content_c (chunk_s (rs ! i)),
                    source_t = title_d (document_s (rs ! i)),
                    filename_t = filename_d (document_s (rs ! i)),
                    similarity_t = Math_round (fmul P (similarity_s (rs ! i)) 100)\<rparr>
               \<and> rat_of_int (similarity_t (results_t (execute P db auth query limit) ! i))
                   \<le> fmul P (similarity_s (rs ! i)) 100 + 1 / 2
               \<and> fmul P (similarity_s (rs ! i)) 100 - 1 / 2
                   < rat_of_int (similarity_t (results_t (execute P db auth query limit) ! i))))"
proof (intro conjI)
  show "success_t (execute P db auth query limit)
      \<longleftrightarrow> (\<exists>uid rs. auth = Inr uid \<and> truthy uid
                    \<and> searchSimilar P db query limit (1 / 5) uid = Inr rs \<and> rs \<noteq> [])"
    by (auto simp: execute_def Let_def split: sum.splits)
next
  show "success_t (execute P db auth query limit)
       \<or> message_t (execute P db auth query limit) \<noteq> []
         \<and> results_t (execute P db auth query limit) = []"
    by (auto simp: execute_def Let_def js_nonempty split: sum.splits)
next
  show "auth = Inr uid \<and> truthy uid \<and> searchSimilar P db query limit (1 / 5) uid = Inr []
     \<longrightarrow> \<not> success_t (execute P db auth query limit)
         \<and> message_t (execute P db auth query limit)
             = js ''No relevant information found in uploaded documents.''
         \<and> results_t (execute P db auth query limit) = []"
    by (simp add: execute_def Let_def)
next
  show "(auth = Inl e \<or> auth = Inr uid \<and> truthy uid
                         \<and> searchSimilar P db query limit (1 / 5) uid = Inl e)
     \<longrightarrow> \<not> success_t (execute P db auth query limit)
         \<and> message_t (execute P db auth query limit) = js ''Error searching documents''
         \<and> results_t (execute P db auth query limit) = []
         \<and> error_t (execute P db auth query limit) = Some (error_message e)"
    by (auto simp: execute_def Let_def)
next
  show "auth = Inr uid \<and> truthy uid \<and> searchSimilar P db query limit (1 / 5) uid = Inr rs
      \<and> rs \<noteq> []
     \<longrightarrow> length (results_t (execute P db auth query limit)) = length rs
         \<and> (\<forall>i<length rs.
               results_t (execute P db auth query limit) ! i
                 = \<lparr>rank_t = i + 1,
                    content_t = content_c (chunk_s (rs ! i)),
                    source_t = title_d (document_s (rs ! i)),
                    filename_t = filename_d (document_s (rs ! i)),
                    similarity_t = Math_round (fmul P (similarity_s (rs ! i)) 100)\<rparr>
               \<and> rat_of_int (similarity_t (results_t (execute P db auth query limit) ! i))
                   \<le> fmul P (similarity_s (rs ! i)) 100 + 1 / 2
               \<and> fmul P (similarity_s (rs ! i)) 100 - 1 / 2
                   < rat_of_int (similarity_t (results_t (execute P db auth query limit) ! i)))"
    using Math_round_nearest by (simp add: execute_def Let_def)
qed

lemma search_u3:
  "searchSimilar online two_owners (js ''fees'') 5 (1 / 5) (Some (js ''u3'')) = Inr []"
  by (simp add: searchSimilar_eq search_sample_defs)

lemma search_meals:
  "searchSimilar online three_owners (js ''meals'') 5 (1 / 5) (Some (js ''u3''))
     = Inr [\<lparr>chunk_s = row_m, document_s = doc_m, similarity_s = 35 / 37\<rparr>]"
  by (simp add: searchSimilar_eq search_sample_defs three_owners_def doc_m_def row_m_def)

theorem execute_never_throws_witness:
  "\<not> success_t (execute online two_owners (Inr (Some (js ''u3''))) (js ''fees'') 5)
   \<and> message_t (execute online two_owners (Inr (Some (js ''u3''))) (js ''fees'') 5)
       = js ''No relevant information found in uploaded documents.''
   \<and> results_t (execute online two_owners (Inr (Some (js ''u3''))) (js ''fees'') 5) = []
   \<and> \<not> success_t (execute online two_owners (Inl (Error (js ''no session''))) (js ''fees'') 5)
   \<and> message_t (execute online two_owners (Inl (Error (js ''no session''))) (js ''fees'') 5)
       = js ''Error searching documents''
   \<and> results_t (execute online two_owners (Inl (Error (js ''no session''))) (js ''fees'') 5) = []
   \<and> error_t (execute online two_owners (Inl (Error (js ''no session''))) (js ''fees'') 5)
       = Some (js ''no session'')
   \<and> success_t (execute online two_owners (Inr (Some (js ''u2''))) (js ''dorms'') 5)
   \<and> results_t (execute online two_owners (Inr (Some (js ''u2''))) (js ''dorms'') 5)
       = [\<lparr>rank_t = 1, content_t = js ''dorms'', source_t = js ''Housing'',
           filename_t = js ''housing.txt'', similarity_t = 80\<rparr>]
   \<and> success_t (execute online three_owners (Inr (Some (js ''u3''))) (js ''meals'') 5)
   \<and> results_t (execute online three_owners (Inr (Some (js ''u3''))) (js ''meals'') 5)
       = [\<lparr>rank_t = 1, content_t = js ''menus'', source_t = js ''Meals'',
           filename_t = js ''meals.txt'', similarity_t = 95\<rparr>]
   \<and> fmul online (35 / 37) 100 = 3500 / 37
   \<and> (3500 / 37 :: rat) - 1 / 2 < 95 \<and> (95 :: rat) \<le> 3500 / 37 + 1 / 2"
proof -
  have t: "truthy (Some (js ''u1''))" "truthy (Some (js ''u2''))" "truthy (Some (js ''u3''))"
    by (simp_all add: truthy_def js_def)
  have u2: "searchSimilar online two_owners (js ''dorms'') 5 (1 / 5) (Some (js ''u2''))
       = Inr [\<lparr>chunk_s = row2, document_s = doc2, similarity_s = 4 / 5\<rparr>]"
    by (simp add: searchSimilar_eq search_sample_defs)
  note a = execute_never_throws [of online two_owners "Inr (Some (js ''u3''))" "js ''fees''" 5
             "Some (js ''u3'')"]
  note b = execute_never_throws [of online two_owners "Inl (Error (js ''no session''))"
             "js ''fees''" 5 _ "Error (js ''no session'')"]
  note c = execute_never_throws [of online two_owners "Inr (Some (js ''u2''))" "js ''dorms''" 5
             "Some (js ''u2'')" _ "[\<lparr>chunk_s = row2, document_s = doc2, similarity_s = 4 / 5\<rparr>]"]
  note d = execute_never_throws [of online three_owners "Inr (Some (js ''u3''))" "js ''meals''" 5
             "Some (js ''u3'')" _ "[\<lparr>chunk_s = row_m, document_s = doc_m, similarity_s = 35 / 37\<rparr>]"]
  have 1: "\<not> success_t (execute online two_owners (Inr (Some (js ''u3''))) (js ''fees'') 5)
   \<and> message_t (execute online two_owners (Inr (Some (js ''u3''))) (js ''fees'') 5)
       = js ''No relevant information found in uploaded documents.''
   \<and> results_t (execute online two_owners (Inr (Some (js ''u3''))) (js ''fees'') 5) = []"
    using a t search_u3 by blast
  have 2: "\<not> success_t (execute online two_owners (Inl (Error (js ''no session''))) (js ''fees'') 5)
   \<and> message_t (execute online two_owners (Inl (Error (js ''no session''))) (js ''fees'') 5)
       = js ''Error searching documents''
   \<and> results_t (execute online two_owners (Inl (Error (js ''no session''))) (js ''fees'') 5) = []
   \<and> error_t (execute online two_owners (Inl (Error (js ''no session''))) (js ''fees'') 5)
       = Some (error_message (Error (js ''no session'')))"
    using b by blast
  have 3: "success_t (execute online two_owners (Inr (Some (js ''u2''))) (js ''dorms'') 5)"
    using c t u2 by blast
  have "length (results_t (execute online two_owners (Inr (Some (js ''u2''))) (js ''dorms'') 5)) = 1
    \<and> results_t (execute online two_owners (Inr (Some (js ''u2''))) (js ''dorms'') 5) ! 0
       = \<lparr>rank_t = 0 + 1, content_t = content_c row2, source_t = title_d doc2,
          filename_t = filename_d doc2,
          similarity_t = Math_round (fmul online (4 / 5) 100)\<rparr>"
    using c t u2 by simp
  then have 4: "results_t (execute online two_owners (Inr (Some (js ''u2''))) (js ''dorms'') 5)
       = [\<lparr>rank_t = 1, content_t = js ''dorms'', source_t = js ''Housing'',
           filename_t = js ''housing.txt'', similarity_t = 80\<rparr>]"
    by (cases "results_t (execute online two_owners (Inr (Some (js ''u2''))) (js ''dorms'') 5)")
       (simp_all add: row2_def doc2_def Math_round_def online_def offline_def floor_eq_iff)
  have 5: "success_t (execute online three_owners (Inr (Some (js ''u3''))) (js ''meals'') 5)"
    using d t search_meals by blast
  have p: "fmul online (35 / 37) 100 = 3500 / 37"
    by (simp add: online_def offline_def)
  have e: "length (results_t (execute online three_owners (Inr (Some (js ''u3''))) (js ''meals'') 5)) = 1
    \<and> results_t (execute online three_owners (Inr (Some (js ''u3''))) (js ''meals'') 5) ! 0
       = \<lparr>rank_t = 0 + 1, content_t = content_c row_m, source_t = title_d doc_m,
          filename_t = filename_d doc_m,
          similarity_t = Math_round (fmul online (35 / 37) 100)\<rparr>"
    using d t search_meals by simp
  have r: "Math_round (3500 / 37) = 95"
    by (simp add: Math_round_def floor_eq_iff)
  from e have 6: "results_t (execute online three_owners (Inr (Some (js ''u3''))) (js ''meals'') 5)
       = [\<lparr>rank_t = 1, content_t = js ''menus'', source_t = js ''Meals'',
           filename_t = js ''meals.txt'', similarity_t = 95\<rparr>]"
    by (cases "results_t (execute online three_owners (Inr (Some (js ''u3''))) (js ''meals'') 5)")
       (simp_all add: row_m_def doc_m_def p r)
  have 7: "(3500 / 37 :: rat) - 1 / 2 < 95 \<and> (95 :: rat) \<le> 3500 / 37 + 1 / 2" by simp
  from 1 2 3 4 5 6 7 p show ?thesis by (simp add: error_message_def)
qed

subsection \<open>addDocument\<close>

lemma chunk_refused_rows [simp]:
  "chunk_refused P (db\<lparr>documentChunk := rows, serial := n\<rparr>) documentId chunk
     = chunk_refused P db documentId chunk"
  by (simp add: chunk_refused_def)

lemma chunk_rows_Nil [simp]: "chunk_rows P n documentId [] = []"
  by (simp add: chunk_rows_def)

lemma chunk_rows_Cons:
  "chunk_rows P n documentId (chunk # chunks)
     = chunk_row P n documentId chunk # chunk_rows P (Suc n) documentId chunks"
  by (simp add: chunk_rows_def upt_conv_Cons del: upt_Suc)

lemma chunk_of_row_chunk_rows [simp]: "map chunk_of_row (chunk_rows P n documentId chunks) = chunks"
  by (induction chunks arbitrary: n) (simp_all add: chunk_rows_Cons chunk_of_row_def chunk_row_def)

lemma documentId_chunk_rows:
  "row \<in> set (chunk_rows P n documentId chunks) \<Longrightarrow> documentId_c row = documentId"
  by (induction chunks arbitrary: n) (auto simp: chunk_rows_Cons chunk_row_def)

lemma length_chunk_rows [simp]: "length (chunk_rows P n documentId chunks) = length chunks"
  by (simp add: chunk_rows_def)

text \<open>
  The loop of inserts: it writes a row for each chunk up to the first one the store
  refuses, and stops there.
\<close>

lemma insert_chunks_refused:
  "\<forall>c'\<in>set pre. chunk_refused P db documentId c' = None \<Longrightarrow>
   chunk_refused P db documentId c = Some e \<Longrightarrow>
   insert_chunks P db documentId (pre @ c # post)
     = (Inl e, db\<lparr>documentChunk := documentChunk db @ chunk_rows P (serial db) documentId pre,
                  serial := serial db + length pre\<rparr>)"
proof (induction pre arbitrary: db)
  case Nil
  then show ?case by (simp add: insert_documentChunk_def)
next
  case (Cons a pre)
  let ?db1 = "db\<lparr>documentChunk := documentChunk db @ [chunk_row P (serial db) documentId a],
                  serial := Suc (serial db)\<rparr>"
  from Cons.prems have ins: "insert_documentChunk P db documentId a = Inr ?db1"
    by (simp add: insert_documentChunk_def)
  from Cons.prems have "\<forall>c'\<in>set pre. chunk_refused P ?db1 documentId c' = None"
    and "chunk_refused P ?db1 documentId c = Some e"
    by simp_all
  from Cons.IH [OF this] ins show ?case by (simp add: chunk_rows_Cons)
qed

lemma insert_chunks_accepted:
  "\<forall>c\<in>set chunks. chunk_refused P db documentId c = None \<Longrightarrow>
   insert_chunks P db documentId chunks
     = (Inr (), db\<lparr>documentChunk := documentChunk db @ chunk_rows P (serial db) documentId chunks,
                   serial := serial db + length chunks\<rparr>)"
proof (induction chunks arbitrary: db)
  case Nil
  then show ?case by simp
next
  case (Cons a chunks)
  let ?db1 = "db\<lparr>documentChunk := documentChunk db @ [chunk_row P (serial db) documentId a],
                  serial := Suc (serial db)\<rparr>"
  from Cons.prems have ins: "insert_documentChunk P db documentId a = Inr ?db1"
    by (simp add: insert_documentChunk_def)
  from Cons.prems have "\<forall>c\<in>set chunks. chunk_refused P ?db1 documentId c = None"
    by simp
  from Cons.IH [OF this] ins show ?case by (simp add: chunk_rows_Cons)
qed

lemma addDocument_eq:
  "addDocument P db buffer filename fileType title userId =
     (case processDocument P buffer filename fileType of
        Inl e \<Rightarrow> (Inl (Error (js ''Failed to add document to knowledge base'')), db)
      | Inr processed \<Rightarrow>
          (case document_refused P db title filename fileType (content_p processed)
                  (fileSize_p (metadata_p processed)) userId of
             Some e \<Rightarrow> (Inl (Error (js ''Failed to add document to knowledge base'')), db)
           | None \<Rightarrow>
               (case insert_chunks P
                       (with_document db (new_document P db title filename fileType userId processed))
                       (gen_random_uuid P (serial db)) (chunks_p processed) of
                  (Inl e, db2) \<Rightarrow>
                    (Inl (Error (js ''Failed to add document to knowledge base'')), db2)
                | (Inr u, db2) \<Rightarrow>
                    (Inr (new_document P db title filename fileType userId processed), db2))))"
proof (cases "processDocument P buffer filename fileType")
  case (Inl e)
  then show ?thesis by (simp add: addDocument_def addDocument_try_def)
next
  case (Inr processed)
  show ?thesis
  proof (cases "document_refused P db title filename fileType (content_p processed)
                  (fileSize_p (metadata_p processed)) userId")
    case (Some e)
    with Inr show ?thesis
      by (simp add: addDocument_def addDocument_try_def insert_knowledgeDocument_def)
  next
    case None
    obtain r db2 where ic:
      "insert_chunks P (with_document db (new_document P db title filename fileType userId processed))
         (gen_random_uuid P (serial db)) (chunks_p processed) = (r, db2)"
      by (cases "insert_chunks P
                   (with_document db (new_document P db title filename fileType userId processed))
                   (gen_random_uuid P (serial db)) (chunks_p processed)")
    have ins: "insert_knowledgeDocument P db title filename fileType (content_p processed)
                 (fileSize_p (metadata_p processed)) userId
               = Inr (new_document P db title filename fileType userId processed,
                      with_document db (new_document P db title filename fileType userId processed))"
      using None
      by (simp add: insert_knowledgeDocument_def new_document_def with_document_def Let_def)
    have idd: "id_d (new_document P db title filename fileType userId processed)
                 = gen_random_uuid P (serial db)"
      by (simp add: new_document_def)
    from Inr None ic show ?thesis
      by (cases r) (simp_all add: addDocument_def addDocument_try_def ins idd)
  qed
qed

text \<open>
  C2, as the code has it. \<open>addDocument\<close> writes the document row and then the chunk rows,
  one statement at a time and in order, and undoes nothing.
  \<^item> When the extraction fails, or the store refuses the document row, the call fails
    and the database is as it was.
  \<^item> When the store takes the document row and every chunk, the call returns the new
    row, and the database holds it and one row for each chunk.
  \<^item> When the store takes the document row and refuses a chunk, the call fails, and the
    database holds the document row and the rows of the chunks before the refused one;
    the refused chunk and those after it are not written.
  Every failure is reported as \<open>Failed to add document to knowledge base\<close>. The store
  takes the document row unless a text value holds the code unit 0, the owner is no
  user, or the platform objects; it takes a chunk of the new document unless its
  content holds the code unit 0, its embedding has not the dimension of the column, or
  the platform objects.
\<close>

theorem addDocument_writes_in_sequence:
  "(processDocument P buffer filename fileType = Inl e
     \<longrightarrow> addDocument P db buffer filename fileType title userId
           = (Inl (Error (js ''Failed to add document to knowledge base'')), db))
   \<and> (processDocument P buffer filename fileType = Inr processed
      \<and> document_refused P db title filename fileType (content_p processed)
          (fileSize_p (metadata_p processed)) userId = Some e
     \<longrightarrow> addDocument P db buffer filename fileType title userId
           = (Inl (Error (js ''Failed to add document to knowledge base'')), db))
   \<and> (processDocument P buffer filename fileType = Inr processed
      \<and> document_refused P db title filename fileType (content_p processed)
          (fileSize_p (metadata_p processed)) userId = None
      \<and> document = new_document P db title filename fileType userId processed
      \<and> (\<forall>c\<in>set (chunks_p processed).
            chunk_refused P (with_document db document) (id_d document) c = None)
     \<longrightarrow> addDocument P db buffer filename fileType title userId
           = (Inr document,
              db\<lparr>knowledgeDocument := knowledgeDocument db @ [document],
                 documentChunk :=
                   documentChunk db
                   @ chunk_rows P (Suc (serial db)) (id_d document) (chunks_p processed),
                 serial := Suc (serial db) + length (chunks_p processed)\<rparr>))
   \<and> (processDocument P buffer filename fileType = Inr processed
      \<and> document_refused P db title filename fileType (content_p processed)
          (fileSize_p (metadata_p processed)) userId = None
      \<and> document = new_document P db title filename fileType userId processed
      \<and> chunks_p processed = pre @ c # post
      \<and> (\<forall>c'\<in>set pre. chunk_refused P (with_document db document) (id_d document) c' = None)
      \<and> chunk_refused P (with_document db document) (id_d document) c = Some e
     \<longrightarrow> addDocument P db buffer filename fileType title userId
           = (Inl (Error (js ''Failed to add document to knowledge base'')),
              db\<lparr>knowledgeDocument := knowledgeDocument db @ [document],
                 documentChunk :=
                   documentChunk db @ chunk_rows P (Suc (serial db)) (id_d document) pre,
                 serial := Suc (serial db) + length pre\<rparr>))
   \<and> map chunk_of_row (chunk_rows P n documentId chunks) = chunks
   \<and> (\<forall>row\<in>set (chunk_rows P n documentId chunks). documentId_c row = documentId)
   \<and> (document_refused P db title filename fileType content fileSize userId = None
        \<longleftrightarrow> 0 \<notin> set title \<and> 0 \<notin> set filename \<and> 0 \<notin> set fileType \<and> 0 \<notin> set content
            \<and> userId \<in> set (user_ids db)
            \<and> \<not> store_rejects_document P title filename fileType content fileSize)
   \<and> (chunk_refused P (with_document db document) (id_d document) c = None
        \<longleftrightarrow> 0 \<notin> set (content_c c) \<and> length (embedding_c c) = vector_dim db
            \<and> \<not> store_rejects_chunk P (content_c c) (embedding_c c) (chunkIndex_c c))"
proof (intro conjI impI)
  assume "processDocument P buffer filename fileType = Inl e"
  then show "addDocument P db buffer filename fileType title userId
           = (Inl (Error (js ''Failed to add document to knowledge base'')), db)"
    by (simp add: addDocument_eq)
next
  assume "processDocument P buffer filename fileType = Inr processed
      \<and> document_refused P db title filename fileType (content_p processed)
          (fileSize_p (metadata_p processed)) userId = Some e"
  then show "addDocument P db buffer filename fileType title userId
           = (Inl (Error (js ''Failed to add document to knowledge base'')), db)"
    by (simp add: addDocument_eq)
next
  assume a: "processDocument P buffer filename fileType = Inr processed
      \<and> document_refused P db title filename fileType (content_p processed)
          (fileSize_p (metadata_p processed)) userId = None
      \<and> document = new_document P db title filename fileType userId processed
      \<and> (\<forall>c\<in>set (chunks_p processed).
            chunk_refused P (with_document db document) (id_d document) c = None)"
  then have pd: "processDocument P buffer filename fileType = Inr processed"
    and dr: "document_refused P db title filename fileType (content_p processed)
          (fileSize_p (metadata_p processed)) userId = None"
    and doc: "new_document P db title filename fileType userId processed = document"
    by simp_all
  have idd: "gen_random_uuid P (serial db) = id_d document"
    unfolding doc [symmetric] by (simp add: new_document_def)
  from a have "\<forall>c\<in>set (chunks_p processed).
            chunk_refused P (with_document db document) (id_d document) c = None"
    by (elim conjE)
  then have ic: "insert_chunks P (with_document db document) (id_d document) (chunks_p processed)
     = (Inr (), (with_document db document)
                  \<lparr>documentChunk := documentChunk (with_document db document)
                      @ chunk_rows P (serial (with_document db document)) (id_d document)
                          (chunks_p processed),
                   serial := serial (with_document db document) + length (chunks_p processed)\<rparr>)"
    by (rule insert_chunks_accepted)
  have "addDocument P db buffer filename fileType title userId
          = (Inr document,
             (with_document db document)
                  \<lparr>documentChunk := documentChunk (with_document db document)
                      @ chunk_rows P (serial (with_document db document)) (id_d document)
                          (chunks_p processed),
                   serial := serial (with_document db document) + length (chunks_p processed)\<rparr>)"
    by (simp only: addDocument_eq pd dr doc idd ic sum.case option.case prod.case)
  then show "addDocument P db buffer filename fileType title userId
           = (Inr document,
              db\<lparr>knowledgeDocument := knowledgeDocument db @ [document],
                 documentChunk :=
                   documentChunk db
                   @ chunk_rows P (Suc (serial db)) (id_d document) (chunks_p processed),
                 serial := Suc (serial db) + length (chunks_p processed)\<rparr>)"
    by (simp add: with_document_def)
next
  assume a: "processDocument P buffer filename fileType = Inr processed
      \<and> document_refused P db title filename fileType (content_p processed)
          (fileSize_p (metadata_p processed)) userId = None
      \<and> document = new_document P db title filename fileType userId processed
      \<and> chunks_p processed = pre @ c # post
      \<and> (\<forall>c'\<in>set pre. chunk_refused P (with_document db document) (id_d document) c' = None)
      \<and> chunk_refused P (with_document db document) (id_d document) c = Some e"
  then have pd: "processDocument P buffer filename fileType = Inr processed"
    and dr: "document_refused P db title filename fileType (content_p processed)
          (fileSize_p (metadata_p processed)) userId = None"
    and doc: "new_document P db title filename fileType userId processed = document"
    and ch: "chunks_p processed = pre @ c # post"
    by simp_all
  have idd: "gen_random_uuid P (serial db) = id_d document"
    unfolding doc [symmetric] by (simp add: new_document_def)
  from a have acc: "\<forall>c'\<in>set pre. chunk_refused P (with_document db document) (id_d document) c' = None"
    by (elim conjE)
  from a have ref: "chunk_refused P (with_document db document) (id_d document) c = Some e"
    by (elim conjE)
  from acc ref have ic: "insert_chunks P (with_document db document) (id_d document) (pre @ c # post)
     = (Inl e, (with_document db document)
                  \<lparr>documentChunk := documentChunk (with_document db document)
                      @ chunk_rows P (serial (with_document db document)) (id_d document) pre,
                   serial := serial (with_document db document) + length pre\<rparr>)"
    by (rule insert_chunks_refused)
  have "addDocument P db buffer filename fileType title userId
          = (Inl (Error (js ''Failed to add document to knowledge base'')),
             (with_document db document)
                  \<lparr>documentChunk := documentChunk (with_document db document)
                      @ chunk_rows P (serial (with_document db document)) (id_d document) pre,
                   serial := serial (with_document db document) + length pre\<rparr>)"
    by (simp only: addDocument_eq pd dr doc idd ch ic sum.case option.case prod.case)
  then show "addDocument P db buffer filename fileType title userId
           = (Inl (Error (js ''Failed to add document to knowledge base'')),
              db\<lparr>knowledgeDocument := knowledgeDocument db @ [document],
                 documentChunk :=
                   documentChunk db @ chunk_rows P (Suc (serial db)) (id_d document) pre,
                 serial := Suc (serial db) + length pre\<rparr>)"
    by (simp add: with_document_def)
next
  show "map chunk_of_row (chunk_rows P n documentId chunks) = chunks" by simp
  show "\<forall>row\<in>set (chunk_rows P n documentId chunks). documentId_c row = documentId"
    by (simp add: documentId_chunk_rows)
  show "document_refused P db title filename fileType content fileSize userId = None
        \<longleftrightarrow> 0 \<notin> set title \<and> 0 \<notin> set filename \<and> 0 \<notin> set fileType \<and> 0 \<notin> set content
            \<and> userId \<in> set (user_ids db)
            \<and> \<not> store_rejects_document P title filename fileType content fileSize"
    by (simp add: document_refused_def)
  show "chunk_refused P (with_document db document) (id_d document) c = None
        \<longleftrightarrow> 0 \<notin> set (content_c c) \<and> length (embedding_c c) = vector_dim db
            \<and> \<not> store_rejects_chunk P (content_c c) (embedding_c c) (chunkIndex_c c)"
    by (simp add: chunk_refused_def with_document_def)
qed

lemma decimal_digit: "n < 10 \<Longrightarrow> decimal n = [48 + n]"
  by (subst decimal.simps) simp

lemmas process_sample_defs =
  processDocument_def createChunks_def makeChunk_def embedChunk_try_def models_def
  online_def offline_def two_chunks_def toLowerCase_def js_def Let_def

lemma process_hi:
  "processDocument online (js ''hi'') (js ''h.txt'') (js ''txt'') = Inr processed_hi"
  by (simp add: process_sample_defs processed_hi_def chunk3_def)

lemma process_hi_bang:
  "processDocument two_chunks (js ''hi!!'') (js ''h.txt'') (js ''txt'') = Inr processed_hi_bang"
  by (simp add: process_sample_defs processed_hi_bang_def chunk_hi_def chunk_bang_def)

lemma process_docx:
  "processDocument online (js ''hi'') (js ''h.docx'') (js ''docx'')
     = Inl (Error (js ''Unsupported file type: docx''))"
  by (simp add: process_sample_defs)

lemma two_owners_fields:
  "knowledgeDocument two_owners = [doc1, doc2]" "documentChunk two_owners = [row1, row2]"
  "serial two_owners = 4" "vector_dim two_owners = 2"
  "user_ids two_owners = [js ''u1'', js ''u2'']"
  by (simp_all add: two_owners_def)

lemma sample_platform_fields:
  "gen_random_uuid online = decimal" "gen_random_uuid two_chunks = decimal"
  "store_rejects_document online = (\<lambda>title filename fileType content fileSize. False)"
  "store_rejects_document two_chunks = (\<lambda>title filename fileType content fileSize. False)"
  "store_rejects_chunk online = (\<lambda>content embedding chunkIndex. False)"
  "store_rejects_chunk two_chunks = (\<lambda>content embedding chunkIndex. False)"
  by (simp_all add: online_def two_chunks_def offline_def)

theorem addDocument_writes_in_sequence_witness:
  "addDocument online two_owners (js ''hi'') (js ''h.txt'') (js ''txt'') (js ''Hi'') (js ''u1'')
     = (Inr doc3,
        two_owners\<lparr>knowledgeDocument := [doc1, doc2, doc3],
                   documentChunk := [row1, row2, chunk_row online 5 (js ''4'') chunk3],
                   serial := 6\<rparr>)
   \<and> addDocument two_chunks two_owners (js ''hi!!'') (js ''h.txt'') (js ''txt'') (js ''Hi'') (js ''u1'')
     = (Inl (Error (js ''Failed to add document to knowledge base'')),
        two_owners\<lparr>knowledgeDocument := [doc1, doc2, doc_hi_bang],
                   documentChunk := [row1, row2, chunk_row two_chunks 5 (js ''4'') chunk_hi],
                   serial := 6\<rparr>)
   \<and> chunks_p processed_hi_bang = [chunk_hi, chunk_bang]
   \<and> addDocument online two_owners (js ''hi'') (js ''h.txt'') (js ''txt'') (js ''Hi'') (js ''u9'')
     = (Inl (Error (js ''Failed to add document to knowledge base'')), two_owners)
   \<and> addDocument online two_owners (js ''hi'') (js ''h.docx'') (js ''docx'') (js ''Hi'') (js ''u1'')
     = (Inl (Error (js ''Failed to add document to knowledge base'')), two_owners)"
proof -
  note t = addDocument_writes_in_sequence
  have ids: "id_d doc3 = js ''4''" "id_d doc_hi_bang = js ''4''"
    by (simp_all add: doc3_def doc_hi_bang_def)
  have dr: "document_refused online two_owners (js ''Hi'') (js ''h.txt'') (js ''txt'')
              (content_p processed_hi) (fileSize_p (metadata_p processed_hi)) (js ''u1'') = None"
    by (simp add: document_refused_def two_owners_fields sample_platform_fields processed_hi_def
          js_def)
  have nd: "doc3 = new_document online two_owners (js ''Hi'') (js ''h.txt'') (js ''txt'')
                     (js ''u1'') processed_hi"
    by (simp add: new_document_def two_owners_fields sample_platform_fields processed_hi_def
          doc3_def decimal_digit js_def)
  have acc: "\<forall>c\<in>set (chunks_p processed_hi).
               chunk_refused online (with_document two_owners doc3) (id_d doc3) c = None"
    by (simp add: chunk_refused_def with_document_def two_owners_fields sample_platform_fields
          processed_hi_def chunk3_def js_def)
  from t [where P = online and db = two_owners and buffer = "js ''hi''"
            and filename = "js ''h.txt''" and fileType = "js ''txt''" and title = "js ''Hi''"
            and userId = "js ''u1''" and processed = processed_hi and document = doc3]
    process_hi dr nd acc
  have "addDocument online two_owners (js ''hi'') (js ''h.txt'') (js ''txt'') (js ''Hi'') (js ''u1'')
     = (Inr doc3,
        two_owners\<lparr>knowledgeDocument := knowledgeDocument two_owners @ [doc3],
                   documentChunk :=
                     documentChunk two_owners
                     @ chunk_rows online (Suc (serial two_owners)) (id_d doc3) (chunks_p processed_hi),
                   serial := Suc (serial two_owners) + length (chunks_p processed_hi)\<rparr>)"
    by blast
  then have 1: "addDocument online two_owners (js ''hi'') (js ''h.txt'') (js ''txt'') (js ''Hi'') (js ''u1'')
     = (Inr doc3,
        two_owners\<lparr>knowledgeDocument := [doc1, doc2, doc3],
                   documentChunk := [row1, row2, chunk_row online 5 (js ''4'') chunk3],
                   serial := 6\<rparr>)"
    by (simp add: two_owners_fields ids processed_hi_def chunk_rows_Cons)
  have dr2: "document_refused two_chunks two_owners (js ''Hi'') (js ''h.txt'') (js ''txt'')
              (content_p processed_hi_bang) (fileSize_p (metadata_p processed_hi_bang)) (js ''u1'')
               = None"
    by (simp add: document_refused_def two_owners_fields sample_platform_fields
          processed_hi_bang_def js_def)
  have nd2: "doc_hi_bang = new_document two_chunks two_owners (js ''Hi'') (js ''h.txt'') (js ''txt'')
                     (js ''u1'') processed_hi_bang"
    by (simp add: new_document_def two_owners_fields sample_platform_fields processed_hi_bang_def
          doc_hi_bang_def decimal_digit js_def)
  have ch2: "chunks_p processed_hi_bang = [chunk_hi] @ chunk_bang # []"
    by (simp add: processed_hi_bang_def)
  have acc2: "\<forall>c'\<in>set [chunk_hi].
               chunk_refused two_chunks (with_document two_owners doc_hi_bang) (id_d doc_hi_bang) c'
                 = None"
    by (simp add: chunk_refused_def with_document_def two_owners_fields sample_platform_fields
          chunk_hi_def js_def)
  have ref2: "chunk_refused two_chunks (with_document two_owners doc_hi_bang) (id_d doc_hi_bang)
                chunk_bang = Some dimension_mismatch"
    by (simp add: chunk_refused_def with_document_def two_owners_fields sample_platform_fields
          chunk_bang_def js_def)
  from t [where P = two_chunks and db = two_owners and buffer = "js ''hi!!''"
            and filename = "js ''h.txt''" and fileType = "js ''txt''" and title = "js ''Hi''"
            and userId = "js ''u1''" and processed = processed_hi_bang and document = doc_hi_bang
            and pre = "[chunk_hi]" and c = chunk_bang and post = "[]" and e = dimension_mismatch]
    process_hi_bang dr2 nd2 ch2 acc2 ref2
  have "addDocument two_chunks two_owners (js ''hi!!'') (js ''h.txt'') (js ''txt'') (js ''Hi'') (js ''u1'')
     = (Inl (Error (js ''Failed to add document to knowledge base'')),
        two_owners\<lparr>knowledgeDocument := knowledgeDocument two_owners @ [doc_hi_bang],
                   documentChunk :=
                     documentChunk two_owners
                     @ chunk_rows two_chunks (Suc (serial two_owners)) (id_d doc_hi_bang) [chunk_hi],
                   serial := Suc (serial two_owners) + length [chunk_hi]\<rparr>)"
    by blast
  then have 2: "addDocument two_chunks two_owners (js ''hi!!'') (js ''h.txt'') (js ''txt'') (js ''Hi'') (js ''u1'')
     = (Inl (Error (js ''Failed to add document to knowledge base'')),
        two_owners\<lparr>knowledgeDocument := [doc1, doc2, doc_hi_bang],
                   documentChunk := [row1, row2, chunk_row two_chunks 5 (js ''4'') chunk_hi],
                   serial := 6\<rparr>)"
    by (simp add: two_owners_fields ids chunk_rows_Cons)
  have dr3: "document_refused online two_owners (js ''Hi'') (js ''h.txt'') (js ''txt'')
              (content_p processed_hi) (fileSize_p (metadata_p processed_hi)) (js ''u9'')
               = Some foreign_key_violation"
    by (simp add: document_refused_def two_owners_fields sample_platform_fields processed_hi_def
          js_def)
  from t [where P = online and db = two_owners and buffer = "js ''hi''"
            and filename = "js ''h.txt''" and fileType = "js ''txt''" and title = "js ''Hi''"
            and userId = "js ''u9''" and processed = processed_hi and e = foreign_key_violation]
    process_hi dr3
  have 3: "addDocument online two_owners (js ''hi'') (js ''h.txt'') (js ''txt'') (js ''Hi'') (js ''u9'')
     = (Inl (Error (js ''Failed to add document to knowledge base'')), two_owners)"
    by blast
  from t [where P = online and db = two_owners and buffer = "js ''hi''"
            and filename = "js ''h.docx''" and fileType = "js ''docx''" and title = "js ''Hi''"
            and userId = "js ''u1''" and e = "Error (js ''Unsupported file type: docx'')"]
    process_docx
  have 4: "addDocument online two_owners (js ''hi'') (js ''h.docx'') (js ''docx'') (js ''Hi'') (js ''u1'')
     = (Inl (Error (js ''Failed to add document to knowledge base'')), two_owners)"
    by blast
  have 5: "chunks_p processed_hi_bang = [chunk_hi, chunk_bang]"
    by (simp add: processed_hi_bang_def)
  from 1 2 3 4 5 show ?thesis by (intro conjI)
qed

lemma add_a_offline:
  "addDocument offline migrated (js ''a'') (js ''a.txt'') (js ''txt'') (js ''A'') (js ''u1'')
     = (Inl (Error (js ''Failed to add document to knowledge base'')),
        migrated\<lparr>knowledgeDocument := [doc_a], serial := 1\<rparr>)"
  by (simp add: addDocument_eq processDocument_def createChunks_def makeChunk_def
        embedChunk_try_def models_def offline_def migrated_def insert_documentChunk_def
        document_refused_def chunk_refused_def
        new_document_def with_document_def toLowerCase_def js_def Let_def decimal_digit
        doc_a_def)

text \<open>
  C2 as the specification words it fails: with every model down the one chunk of a
  one-byte text file gets the 384-component fallback vector, the column \<open>vector(1536)\<close>
  refuses it, and the call fails leaving the document row without its chunk.
\<close>

theorem addDocument_partial_write_counterexample:
  "fst (addDocument offline migrated (js ''a'') (js ''a.txt'') (js ''txt'') (js ''A'') (js ''u1''))
     = Inl (Error (js ''Failed to add document to knowledge base''))
   \<and> knowledgeDocument
        (snd (addDocument offline migrated (js ''a'') (js ''a.txt'') (js ''txt'') (js ''A'') (js ''u1'')))
     = [doc_a]
   \<and> documentChunk
        (snd (addDocument offline migrated (js ''a'') (js ''a.txt'') (js ''txt'') (js ''A'') (js ''u1'')))
     = []
   \<and> map content_c (createChunks offline (js ''a'') (js ''a.txt'')) = [js ''a'']
   \<and> knowledgeDocument migrated = []"
proof -
  have c: "map content_c (createChunks offline (js ''a'') (js ''a.txt'')) = [js ''a'']"
    by (simp add: createChunks_def makeChunk_def embedChunk_try_def models_def offline_def
          js_def Let_def)
  have m: "knowledgeDocument migrated = []" "documentChunk migrated = []"
    by (simp_all add: migrated_def)
  show ?thesis by (simp add: add_a_offline c m)
qed

subsection \<open>deleteDocument\<close>

lemma filter_id_conv: "(\<forall>x\<in>set xs. P x) \<Longrightarrow> filter P xs = xs"
  by (induction xs) auto

lemma deleteDocument_uuid:
  "uuid_in P documentId = Some i \<Longrightarrow> uuid_in P userId = Some u \<Longrightarrow>
   deleteDocument P db documentId userId
     = (Inr (),
        db\<lparr>knowledgeDocument :=
              filter (\<lambda>d. \<not> (id_d d = i \<and> userId_d d = u)) (knowledgeDocument db),
           documentChunk :=
              filter (\<lambda>c. documentId_c c
                             \<notin> set (map id_d (filter (\<lambda>d. id_d d = i \<and> userId_d d = u)
                                                   (knowledgeDocument db))))
                (documentChunk db)\<rparr>)"
  by (simp add: deleteDocument_def Let_def)

lemma deleteDocument_no_match:
  assumes "uuid_in P documentId = Some i" and "uuid_in P userId = Some u"
    and "\<forall>d\<in>set (knowledgeDocument db). \<not> (id_d d = i \<and> userId_d d = u)"
  shows "deleteDocument P db documentId userId = (Inr (), db)"
proof -
  from assms(3) have "filter (\<lambda>d. \<not> (id_d d = i \<and> userId_d d = u)) (knowledgeDocument db)
                      = knowledgeDocument db"
    by (intro filter_id_conv) simp
  moreover from assms(3)
  have "filter (\<lambda>d. id_d d = i \<and> userId_d d = u) (knowledgeDocument db) = []"
    by (simp add: filter_empty_conv)
  ultimately show ?thesis by (simp add: deleteDocument_uuid [OF assms(1,2)])
qed

lemma uuid_samples:
  "hyphenated_uuid user_1 = Some user_1" "hyphenated_uuid user_2 = Some user_2"
  "hyphenated_uuid document_1 = Some document_1" "hyphenated_uuid document_2 = Some document_2"
  "hyphenated_uuid (js ''AAAAAAAA-AAAA-4AAA-8AAA-AAAAAAAAAAAA'') = Some document_1"
  "hyphenated_uuid (js ''cccccccc-cccc-4ccc-8ccc-cccccccccccc'')
     = Some (js ''cccccccc-cccc-4ccc-8ccc-cccccccccccc'')"
  "hyphenated_uuid (js ''d1'') = None"
  by (simp_all add: hyphenated_uuid_def hex_digit_def toLowerCase_def user_1_def user_2_def
        document_1_def document_2_def js_def upt_conv_Cons)

text \<open>
  C5, as the code has it. \<open>deleteDocument\<close> has no \<open>try\<close>. When the identifier or the owner
  is no uuid, the store refuses the statement, the error reaches the caller and the
  database is as it was. When both are uuids the call returns without an error and
  removes exactly the document rows with that identifier and that owner. When there is
  none (the identifier is unknown or belongs to another owner) the database is
  unchanged; a second call changes nothing. When the document belongs to the owner, all
  chunks that refer to it are deleted and \<open>getDocumentChunks\<close> for it is empty. In every
  case \<open>getDocuments\<close> of the owner does not list the identifier afterwards.
\<close>

theorem deleteDocument_owner_scoped_cascade:
  "(uuid_in P documentId = None \<or> uuid_in P userId = None
     \<longrightarrow> deleteDocument P db documentId userId = (Inl invalid_uuid, db))
   \<and> (uuid_in P documentId = Some i \<and> uuid_in P userId = Some u
     \<longrightarrow> fst (deleteDocument P db documentId userId) = Inr ()
         \<and> knowledgeDocument (snd (deleteDocument P db documentId userId))
             = filter (\<lambda>d. \<not> (id_d d = i \<and> userId_d d = u)) (knowledgeDocument db)
         \<and> ((\<forall>d\<in>set (knowledgeDocument db). \<not> (id_d d = i \<and> userId_d d = u))
              \<longrightarrow> deleteDocument P db documentId userId = (Inr (), db))
         \<and> deleteDocument P (snd (deleteDocument P db documentId userId)) documentId userId
             = deleteDocument P db documentId userId
         \<and> ((\<exists>d\<in>set (knowledgeDocument db). id_d d = i \<and> userId_d d = u)
              \<longrightarrow> documentChunk (snd (deleteDocument P db documentId userId))
                    = filter (\<lambda>c. documentId_c c \<noteq> i) (documentChunk db)
                  \<and> getDocumentChunks P (snd (deleteDocument P db documentId userId)) documentId
                    = Inr [])
         \<and> (\<exists>ds. getDocuments P (snd (deleteDocument P db documentId userId)) userId = Inr ds
                 \<and> i \<notin> set (map id_d ds)))"
proof (intro conjI impI)
  assume "uuid_in P documentId = None \<or> uuid_in P userId = None"
  then show "deleteDocument P db documentId userId = (Inl invalid_uuid, db)"
    by (auto simp: deleteDocument_def split: option.splits)
next
  assume a: "uuid_in P documentId = Some i \<and> uuid_in P userId = Some u"
  then have i: "uuid_in P documentId = Some i" and u: "uuid_in P userId = Some u" by simp_all
  note eq = deleteDocument_uuid [OF i u]
  let ?db' = "snd (deleteDocument P db documentId userId)"
  show "fst (deleteDocument P db documentId userId) = Inr ()" by (simp add: eq)
  show docs: "knowledgeDocument ?db'
                = filter (\<lambda>d. \<not> (id_d d = i \<and> userId_d d = u)) (knowledgeDocument db)"
    by (simp add: eq)
  show "deleteDocument P db documentId userId = (Inr (), db)"
    if "\<forall>d\<in>set (knowledgeDocument db). \<not> (id_d d = i \<and> userId_d d = u)"
    using i u that by (rule deleteDocument_no_match)
  have "\<forall>d\<in>set (knowledgeDocument ?db'). \<not> (id_d d = i \<and> userId_d d = u)"
    by (simp add: docs)
  with i u have "deleteDocument P ?db' documentId userId = (Inr (), ?db')"
    by (rule deleteDocument_no_match)
  also have "\<dots> = deleteDocument P db documentId userId" by (simp add: eq)
  finally show "deleteDocument P ?db' documentId userId = deleteDocument P db documentId userId" .
  show "\<exists>ds. getDocuments P ?db' userId = Inr ds \<and> i \<notin> set (map id_d ds)"
    by (auto simp: getDocuments_def u docs)
  assume owned: "\<exists>d\<in>set (knowledgeDocument db). id_d d = i \<and> userId_d d = u"
  have ids: "set (map id_d (filter (\<lambda>d. id_d d = i \<and> userId_d d = u) (knowledgeDocument db))) = {i}"
    using owned by auto
  show chunks: "documentChunk ?db' = filter (\<lambda>c. documentId_c c \<noteq> i) (documentChunk db)"
    using ids by (simp add: eq)
  show "getDocumentChunks P ?db' documentId = Inr []"
    by (simp add: getDocumentChunks_def i chunks)
qed

lemma registered_fields:
  "knowledgeDocument registered = [doc1\<lparr>id_d := document_1, userId_d := user_1\<rparr>,
                                    doc2\<lparr>id_d := document_2, userId_d := user_2\<rparr>]"
  "documentChunk registered = [row1\<lparr>documentId_c := document_1\<rparr>,
                                row2\<lparr>documentId_c := document_2\<rparr>]"
  by (simp_all add: registered_def)

lemma uuid_distinct:
  "document_1 \<noteq> document_2" "document_2 \<noteq> document_1" "user_1 \<noteq> user_2" "user_2 \<noteq> user_1"
  "js ''cccccccc-cccc-4ccc-8ccc-cccccccccccc'' \<noteq> document_1"
  "js ''cccccccc-cccc-4ccc-8ccc-cccccccccccc'' \<noteq> document_2"
  "document_1 \<noteq> js ''cccccccc-cccc-4ccc-8ccc-cccccccccccc''"
  "document_2 \<noteq> js ''cccccccc-cccc-4ccc-8ccc-cccccccccccc''"
  "js ''d1'' \<noteq> document_1" "js ''d1'' \<noteq> document_2"
  by (simp_all add: document_1_def document_2_def user_1_def user_2_def js_def)

lemma uuid_store_uuid_in: "uuid_in uuid_store = hyphenated_uuid"
  by (simp add: uuid_store_def offline_def)

theorem deleteDocument_owner_scoped_cascade_witness:
  "deleteDocument uuid_store registered document_2 user_1 = (Inr (), registered)
   \<and> getDocumentChunks uuid_store registered document_2 = Inr [row2\<lparr>documentId_c := document_2\<rparr>]
   \<and> deleteDocument uuid_store registered (js ''cccccccc-cccc-4ccc-8ccc-cccccccccccc'') user_1
       = (Inr (), registered)
   \<and> deleteDocument uuid_store registered document_1 user_1
       = (Inr (), registered\<lparr>knowledgeDocument := [doc2\<lparr>id_d := document_2, userId_d := user_2\<rparr>],
                             documentChunk := [row2\<lparr>documentId_c := document_2\<rparr>]\<rparr>)
   \<and> deleteDocument uuid_store registered (js ''AAAAAAAA-AAAA-4AAA-8AAA-AAAAAAAAAAAA'') user_1
       = deleteDocument uuid_store registered document_1 user_1
   \<and> getDocumentChunks uuid_store
        (snd (deleteDocument uuid_store registered document_1 user_1)) document_1 = Inr []
   \<and> getDocuments uuid_store
        (snd (deleteDocument uuid_store registered document_1 user_1)) user_1 = Inr []
   \<and> deleteDocument uuid_store registered (js ''d1'') user_1 = (Inl invalid_uuid, registered)"
proof -
  note t = deleteDocument_owner_scoped_cascade
  note u = uuid_samples [folded uuid_store_uuid_in]
  have foreign: "\<forall>d\<in>set (knowledgeDocument registered).
                   \<not> (id_d d = document_2 \<and> userId_d d = user_1)"
    by (simp add: registered_fields uuid_distinct)
  have unknown: "\<forall>d\<in>set (knowledgeDocument registered).
                   \<not> (id_d d = js ''cccccccc-cccc-4ccc-8ccc-cccccccccccc'' \<and> userId_d d = user_1)"
    by (simp add: registered_fields uuid_distinct)
  have owned: "\<exists>d\<in>set (knowledgeDocument registered). id_d d = document_1 \<and> userId_d d = user_1"
    by (simp add: registered_fields)
  from t [of uuid_store document_2 user_1 registered document_2 user_1] u foreign
  have 1: "deleteDocument uuid_store registered document_2 user_1 = (Inr (), registered)"
    by blast
  have 2: "getDocumentChunks uuid_store registered document_2
             = Inr [row2\<lparr>documentId_c := document_2\<rparr>]"
    by (simp add: getDocumentChunks_def u registered_fields uuid_distinct)
  from t [of uuid_store "js ''cccccccc-cccc-4ccc-8ccc-cccccccccccc''" user_1 registered
             "js ''cccccccc-cccc-4ccc-8ccc-cccccccccccc''" user_1] u unknown
  have 3: "deleteDocument uuid_store registered (js ''cccccccc-cccc-4ccc-8ccc-cccccccccccc'') user_1
       = (Inr (), registered)"
    by blast
  from t [of uuid_store document_1 user_1 registered document_1 user_1] u owned
  have d: "fst (deleteDocument uuid_store registered document_1 user_1) = Inr ()
     \<and> knowledgeDocument (snd (deleteDocument uuid_store registered document_1 user_1))
         = filter (\<lambda>d. \<not> (id_d d = document_1 \<and> userId_d d = user_1)) (knowledgeDocument registered)
     \<and> documentChunk (snd (deleteDocument uuid_store registered document_1 user_1))
         = filter (\<lambda>c. documentId_c c \<noteq> document_1) (documentChunk registered)
     \<and> getDocumentChunks uuid_store
          (snd (deleteDocument uuid_store registered document_1 user_1)) document_1 = Inr []"
    by blast
  have 4: "deleteDocument uuid_store registered document_1 user_1
       = (Inr (), registered\<lparr>knowledgeDocument := [doc2\<lparr>id_d := document_2, userId_d := user_2\<rparr>],
                             documentChunk := [row2\<lparr>documentId_c := document_2\<rparr>]\<rparr>)"
    by (simp add: deleteDocument_uuid [OF u(3) u(1)] registered_fields uuid_distinct)
  have 5: "deleteDocument uuid_store registered (js ''AAAAAAAA-AAAA-4AAA-8AAA-AAAAAAAAAAAA'') user_1
       = deleteDocument uuid_store registered document_1 user_1"
    by (simp add: deleteDocument_uuid [OF u(5) u(1)] deleteDocument_uuid [OF u(3) u(1)])
  have 6: "getDocuments uuid_store
        (snd (deleteDocument uuid_store registered document_1 user_1)) user_1 = Inr []"
    by (simp add: 4 getDocuments_def u uuid_distinct)
  from t [of uuid_store "js ''d1''" user_1 registered] u
  have 7: "deleteDocument uuid_store registered (js ''d1'') user_1 = (Inl invalid_uuid, registered)"
    by blast
  from 1 2 3 4 5 6 7 d show ?thesis by blast
qed

text \<open>
  C5 as the specification words it fails for an identifier that is no uuid: no document
  has the identifier \<open>d1\<close>, and the call raises the error of the store instead of
  returning.
\<close>

theorem deleteDocument_invalid_uuid_counterexample:
  "deleteDocument uuid_store registered (js ''d1'') user_1 = (Inl invalid_uuid, registered)
   \<and> js ''d1'' \<notin> set (map id_d (knowledgeDocument registered))
   \<and> invalid_uuid = PostgresError (js ''invalid input syntax for type uuid'')"
  by (simp add: deleteDocument_def uuid_store_uuid_in uuid_samples registered_fields uuid_distinct
        invalid_uuid_def)

subsection \<open>reprocessDocument\<close>

lemma processDocument_txt:
  "processDocument P buffer filename (js ''txt'') =
     Inr \<lparr>content_p = toString_utf8 P buffer,
          chunks_p = createChunks P (toString_utf8 P buffer) filename,
          metadata_p = \<lparr>filename_p = filename, fileType_p = js ''txt'',
                        fileSize_p = length buffer,
                        totalChunks_p = length (createChunks P (toString_utf8 P buffer) filename)\<rparr>\<rparr>"
  by (simp add: processDocument_def toLowerCase_def js_def Let_def)










subsection \<open>A zero-byte text upload\<close>

text \<open>
  The splitter is a library the pipeline calls; what it returns for a text is not decided
  here. On the code of \<open>processDocument\<close> and \<open>addDocument\<close>: if the empty buffer decodes
  to the empty string and the splitter returns no chunk for it, a zero-byte \<open>txt\<close> upload
  that the store does not refuse stores the document with empty content and writes no
  chunk row.
\<close>

lemma zero_byte_txt_upload:
  assumes "toString_utf8 P [] = []" and "splitText P [] = []"
    and "document_refused P db title filename (js ''txt'') [] 0 userId = None"
  shows "addDocument P db [] filename (js ''txt'') title userId
           = (Inr \<lparr>id_d = gen_random_uuid P (serial db), title_d = title,
                    filename_d = filename, fileType_d = js ''txt'', content_d = Some [],
                    fileSize_d = Some 0, uploadedAt_d = serial db, userId_d = userId\<rparr>,
              db\<lparr>knowledgeDocument :=
                   knowledgeDocument db @
                     [\<lparr>id_d = gen_random_uuid P (serial db), title_d = title,
                       filename_d = filename, fileType_d = js ''txt'', content_d = Some [],
                       fileSize_d = Some 0, uploadedAt_d = serial db, userId_d = userId\<rparr>],
                 serial := Suc (serial db)\<rparr>)"
  using assms
  by (simp add: addDocument_eq processDocument_txt createChunks_def new_document_def
        with_document_def)

end
